theory Spec2Isabelle
  imports Complex_Main
begin

section \<open>Python values and exceptions\<close>

text \<open>
  The exceptions raised by the two modules
  (\<^verbatim>\<open>SimEx/Parameters/DetectorGeometry.py\<close> and
  \<^verbatim>\<open>SimEx/Calculators/PlasmaXRTSCalculator.py\<close>). Both are Python 2 sources
  (\<^verbatim>\<open>print\<close> statements, \<^verbatim>\<open>raise( RuntimeError, "..." )\<close>).
\<close>

datatype error = IOError | OSError | RuntimeError | TypeError | ValueError | IndexError
  | ZeroDivisionError

text \<open>
  A Python \<^verbatim>\<open>float\<close>, a binary64 number: \<open>Fin x\<close> is the finite float of value
  \<open>x\<close>, with \<open>Fin 0\<close> the positive zero; then the negative zero, the two infinities
  and not-a-number.
\<close>

datatype pyfloat = Fin real | NegZero | PosInf | NegInf | NaN

text \<open>The files, path to content, and \<^verbatim>\<open>os.path.isfile\<close>.\<close>

type_synonym files = "string \<rightharpoonup> string"

definition isfile :: "files \<Rightarrow> string \<Rightarrow> bool" where
  "isfile fs path = (fs path \<noteq> None)"

section \<open>The regular expressions of \<^verbatim>\<open>parseStaticData\<close>\<close>

text \<open>
  The patterns of the module use literal characters, the classes \<^verbatim>\<open>\s\<close> and
  \<^verbatim>\<open>\d\<close>, one bracketed character set, and the repetition \<^verbatim>\<open>+\<close>. A pattern
  is a sequence of items, each an atom taken once or one or more times.
\<close>

datatype atom = Lit char | Space | Digit | OneOf "atom list"

datatype item = One atom | Plus atom

definition is_space :: "char \<Rightarrow> bool" where
  \<comment> \<open>\<^verbatim>\<open>\s\<close> on a byte string: blank, \<^verbatim>\<open>\t \n \v \f \r\<close>\<close>
  "is_space c = (c = CHR '' '' \<or> c = CHR 0x09 \<or> c = CHR 0x0A \<or> c = CHR 0x0B
                 \<or> c = CHR 0x0C \<or> c = CHR 0x0D)"

definition is_digit :: "char \<Rightarrow> bool" where
  "is_digit c = (c \<in> set ''0123456789'')"

fun atom_ok :: "atom \<Rightarrow> char \<Rightarrow> bool" where
  "atom_ok (Lit d) c = (c = d)"
| "atom_ok Space c = is_space c"
| "atom_ok Digit c = is_digit c"
| "atom_ok (OneOf as) c = list_ex (\<lambda>a. atom_ok a c) as"

text \<open>
  \<open>match_here r s\<close> is the length of the match of \<open>r\<close> at the start of \<open>s\<close>, as the
  backtracking matcher of \<^verbatim>\<open>re\<close> finds it: a repetition takes as many characters
  as it can and gives them back only when the rest of the pattern fails.
\<close>

fun match_here :: "item list \<Rightarrow> string \<Rightarrow> nat option" where
  "match_here [] s = Some 0"
| "match_here (One a # r) [] = None"
| "match_here (One a # r) (c # s) =
     (if atom_ok a c then map_option Suc (match_here r s) else None)"
| "match_here (Plus a # r) [] = None"
| "match_here (Plus a # r) (c # s) =
     (if atom_ok a c
      then (case match_here (Plus a # r) s of
              Some n \<Rightarrow> Some (Suc n)
            | None \<Rightarrow> map_option Suc (match_here r s))
      else None)"

lemma match_here_le: "match_here r s = Some n \<Longrightarrow> n \<le> length s"
  by (induction r s arbitrary: n rule: match_here.induct)
     (auto split: if_splits option.splits)

text \<open>
  \<^verbatim>\<open>pattern.findall(text)\<close>: the matches from left to right, none overlapping
  another; after an empty match the scan moves on by one character.
\<close>

function findall :: "item list \<Rightarrow> string \<Rightarrow> string list" where
  "findall r s =
     (case match_here r s of
        None \<Rightarrow> (case s of [] \<Rightarrow> [] | c # s' \<Rightarrow> findall r s')
      | Some n \<Rightarrow>
          (if n = 0 then (case s of [] \<Rightarrow> [[]] | c # s' \<Rightarrow> [] # findall r s')
           else take n s # findall r (drop n s)))"
  by pat_completeness auto
termination
proof (relation "measure (\<lambda>(r, s). length s)")
  fix r :: "item list" and s :: string and n :: nat
  assume "match_here r s = Some n" and "n \<noteq> 0"
  then have "0 < n" and "n \<le> length s"
    using match_here_le by auto
  then show "((r, drop n s), (r, s)) \<in> measure (\<lambda>(r, s). length s)"
    by simp
qed auto

text \<open>
  \<^verbatim>\<open>pattern.split(line)\<close> for a pattern without groups: the pieces of the string
  between the non-empty matches. \<open>acc\<close> holds the current piece, reversed.
\<close>

function split_acc :: "item list \<Rightarrow> string \<Rightarrow> string \<Rightarrow> string list" where
  "split_acc r acc s =
     (case s of
        [] \<Rightarrow> [rev acc]
      | c # s' \<Rightarrow>
          (case match_here r s of
             None \<Rightarrow> split_acc r (c # acc) s'
           | Some n \<Rightarrow>
               (if n = 0 then split_acc r (c # acc) s'
                else rev acc # split_acc r [] (drop n s))))"
  by pat_completeness auto
termination
proof (relation "measure (\<lambda>(r, acc, s). length s)")
  fix r :: "item list" and acc s s' :: string and c :: char and n :: nat
  assume "s = c # s'" and "match_here r s = Some n" and "n \<noteq> 0"
  then show "((r, [], drop n s), (r, acc, s)) \<in> measure (\<lambda>(r, acc, s). length s)"
    by simp
qed auto

definition re_split :: "item list \<Rightarrow> string \<Rightarrow> string list" where
  "re_split r s = split_acc r [] s"

declare findall.simps [simp del] split_acc.simps [simp del]

section \<open>\<^verbatim>\<open>float(str)\<close>\<close>

text \<open>
  \<^verbatim>\<open>float\<close> of a string: surrounding whitespace is dropped; then an optional sign,
  and either a decimal number (digits with an optional point, an optional exponent) or
  one of the spellings of infinity and not-a-number, in any case. Anything else raises
  \<^verbatim>\<open>ValueError\<close>. The value is the decimal value rounded to binary64, with the
  sign put on afterwards.
\<close>

definition strip :: "string \<Rightarrow> string" where
  "strip s = rev (dropWhile is_space (rev (dropWhile is_space s)))"

fun sign_split :: "string \<Rightarrow> bool \<times> string" where
  "sign_split [] = (False, [])"
| "sign_split (c # s) =
     (if c = CHR ''-'' then (True, s) else if c = CHR ''+'' then (False, s) else (False, c # s))"

definition digit_val :: "char \<Rightarrow> nat" where
  "digit_val c = of_char c - 48"

definition nat_of_digits :: "string \<Rightarrow> nat" where
  "nat_of_digits ds = foldl (\<lambda>a c. 10 * a + digit_val c) 0 ds"

definition lower :: "char \<Rightarrow> char" where
  "lower c = (if 65 \<le> (of_char c :: nat) \<and> (of_char c :: nat) \<le> 90
              then char_of (of_char c + (32 :: nat)) else c)"

definition parse_exponent :: "string \<Rightarrow> int option" where
  "parse_exponent s =
     (case s of
        [] \<Rightarrow> Some 0
      | c # t \<Rightarrow>
          (if c = CHR ''e'' \<or> c = CHR ''E''
           then (case sign_split t of
                   (neg, ds) \<Rightarrow>
                     (if ds \<noteq> [] \<and> list_all is_digit ds
                      then Some (if neg then - int (nat_of_digits ds) else int (nat_of_digits ds))
                      else None))
           else None))"

definition parse_decimal :: "string \<Rightarrow> real option" where
  "parse_decimal s =
     (let ip = takeWhile is_digit s;
          r1 = dropWhile is_digit s;
          fp = (case r1 of [] \<Rightarrow> [] | c # t \<Rightarrow> if c = CHR ''.'' then takeWhile is_digit t else []);
          r2 = (case r1 of [] \<Rightarrow> [] | c # t \<Rightarrow> if c = CHR ''.'' then dropWhile is_digit t else r1)
      in if ip = [] \<and> fp = [] then None
         else (case parse_exponent r2 of
                 None \<Rightarrow> None
               | Some ex \<Rightarrow>
                   (let m = real (nat_of_digits ip) + real (nat_of_digits fp) / 10 ^ length fp
                    in Some (if 0 \<le> ex then m * 10 ^ nat ex else m / 10 ^ nat (- ex)))))"

text \<open>
  The rounding of a real number to binary64, to nearest with ties to even: the
  number is cut to 53 significant bits (fewer below \<open>2^-1022\<close>, where the spacing is
  \<open>2^-1074\<close>); a result of magnitude \<open>2^1024\<close> or more is an infinity, and a result
  of zero keeps the sign. The binary exponent of \<open>x\<close> is the largest \<open>E\<close> up to 1023
  with \<open>2^E \<le> \<bar>x\<bar>\<close>; below \<open>2^-1074\<close> there is none, and the spacing decides.
\<close>

definition pow2 :: "int \<Rightarrow> real" where
  "pow2 k = (if 0 \<le> k then 2 ^ nat k else 1 / 2 ^ nat (- k))"

definition binary_exponent :: "real \<Rightarrow> int" where
  "binary_exponent x =
     (case find (\<lambda>E. pow2 E \<le> \<bar>x\<bar>) (map (\<lambda>n. 1023 - int n) [0..<2098]) of
        Some E \<Rightarrow> E
      | None \<Rightarrow> - 1075)"

definition round_half_even :: "real \<Rightarrow> int" where
  "round_half_even q =
     (let f = \<lfloor>q\<rfloor> in
      if q - of_int f < 1 / 2 then f
      else if 1 / 2 < q - of_int f then f + 1
      else if even f then f else f + 1)"

definition round64 :: "real \<Rightarrow> pyfloat" where
  "round64 x =
     (if x = 0 then Fin 0
      else
        (let k = max (binary_exponent x - 52) (- 1074);
             y = of_int (round_half_even (x / pow2 k)) * pow2 k
         in if 2 ^ 1024 \<le> \<bar>y\<bar> then (if 0 < x then PosInf else NegInf)
            else if y = 0 then (if 0 < x then Fin 0 else NegZero)
            else Fin y))"

fun fneg :: "pyfloat \<Rightarrow> pyfloat" where
  "fneg (Fin x) = (if x = 0 then NegZero else Fin (- x))"
| "fneg NegZero = Fin 0"
| "fneg PosInf = NegInf"
| "fneg NegInf = PosInf"
| "fneg NaN = NaN"

definition py_float :: "string \<Rightarrow> error + pyfloat" where
  "py_float s =
     (case sign_split (strip s) of
        (neg, body) \<Rightarrow>
          (if map lower body = ''inf'' \<or> map lower body = ''infinity''
           then Inr (if neg then NegInf else PosInf)
           else if map lower body = ''nan'' then Inr NaN
           else (case parse_decimal body of
                   None \<Rightarrow> Inl ValueError
                 | Some v \<Rightarrow> Inr (if neg then fneg (round64 v) else round64 v))))"

text \<open>The value of the decimal numeral with the digits \<open>ip\<close> before and \<open>fp\<close> behind the point.\<close>

definition decimal_value :: "string \<Rightarrow> string \<Rightarrow> real" where
  "decimal_value ip fp = real (nat_of_digits ip) + real (nat_of_digits fp) / 10 ^ length fp"

section \<open>\<^verbatim>\<open>extractDate\<close> and \<^verbatim>\<open>parseStaticData\<close>\<close>

definition eq_space :: "item list" where
  \<comment> \<open>\<^verbatim>\<open>re.compile("=\\s")\<close>, the regular expression \<^verbatim>\<open>=\s\<close>\<close>
  "eq_space = [One (Lit (CHR ''='')), One Space]"

text \<open>
  \<^verbatim>\<open>line[0]\<close> raises \<^verbatim>\<open>IndexError\<close> when nothing matched; the last piece of
  the split is the text behind the last \<^verbatim>\<open>=\<close> that a whitespace follows.
\<close>

definition extractDate :: "item list \<Rightarrow> string \<Rightarrow> error + pyfloat" where
  "extractDate pattern_string text =
     (case findall pattern_string text of
        [] \<Rightarrow> Inl IndexError
      | l # ls \<Rightarrow>
          (case rev (re_split eq_space l) of
             [] \<Rightarrow> Inl IndexError
           | p # ps \<Rightarrow> py_float p))"

definition lits :: "string \<Rightarrow> item list" where
  "lits s = map (\<lambda>c. One (Lit c)) s"

definition number_tail :: "item list" where
  \<comment> \<open>\<^verbatim>\<open>\s+=\s\d+\.\d+\<close>\<close>
  "number_tail = [Plus Space, One (Lit (CHR ''='')), One Space,
                  Plus Digit, One (Lit (CHR ''.'')), Plus Digit]"

definition pat_fk :: "item list" where
  "pat_fk = lits ''f(k)'' @ number_tail"

definition pat_qk :: "item list" where
  "pat_qk = lits ''q(k)'' @ number_tail"

definition pat_Sk_ion :: "item list" where
  "pat_Sk_ion = lits ''S_ii(k)'' @ number_tail"

definition pat_Sk_free :: "item list" where
  "pat_Sk_free = lits ''S_ee^0(k)'' @ number_tail"

definition pat_Sk_core :: "item list" where
  "pat_Sk_core = lits ''Core_inelastic(k)'' @ number_tail"

definition pat_Wk :: "item list" where
  "pat_Wk = lits ''Elastic(k)'' @ number_tail"

definition pat_Sk_total :: "item list" where
  "pat_Sk_total = lits ''S_total(k)'' @ number_tail"

definition pat_ipl :: "item list" where
  "pat_ipl = lits ''IP depression [eV]'' @ number_tail"

definition pat_lfc :: "item list" where
  "pat_lfc = lits ''G(k)'' @ number_tail"

definition pat_debye_waller :: "item list" where
  \<comment> \<open>\<^verbatim>\<open>Debye-Waller\s+=\s+[1|\d+.\d+]\<close>: the brackets make a set of single characters\<close>
  "pat_debye_waller = lits ''Debye-Waller'' @
     [Plus Space, One (Lit (CHR ''='')), Plus Space,
      One (OneOf [Lit (CHR ''1''), Lit (CHR ''|''), Digit, Lit (CHR ''+''), Lit (CHR ''.''),
                  Digit, Lit (CHR ''+'')])]"

type_synonym static_dict = "string \<rightharpoonup> pyfloat"

definition set_item :: "string \<Rightarrow> error + pyfloat \<Rightarrow> static_dict \<Rightarrow> error + static_dict" where
  \<comment> \<open>\<^verbatim>\<open>static_dict[key] = extractDate(...)\<close>: a raising right-hand side stores nothing\<close>
  "set_item key r d = (case r of Inl e \<Rightarrow> Inl e | Inr v \<Rightarrow> Inr (d(key \<mapsto> v)))"

definition and_then :: "error + 'a \<Rightarrow> ('a \<Rightarrow> error + 'b) \<Rightarrow> error + 'b" where
  "and_then r f = (case r of Inl e \<Rightarrow> Inl e | Inr v \<Rightarrow> f v)"

definition parseStaticData :: "string \<Rightarrow> error + static_dict" where
  "parseStaticData data_string =
     and_then (set_item ''fk'' (extractDate pat_fk data_string) Map.empty) (\<lambda>d.
     and_then (set_item ''qk'' (extractDate pat_qk data_string) d) (\<lambda>d.
     and_then (set_item ''Sk_ion'' (extractDate pat_Sk_ion data_string) d) (\<lambda>d.
     and_then (set_item ''Sk_free'' (extractDate pat_Sk_free data_string) d) (\<lambda>d.
     and_then (set_item ''Sk_core'' (extractDate pat_Sk_core data_string) d) (\<lambda>d.
     and_then (set_item ''Wk'' (extractDate pat_Wk data_string) d) (\<lambda>d.
     and_then (set_item ''Sk_total'' (extractDate pat_Sk_total data_string) d) (\<lambda>d.
     and_then (set_item ''ipl'' (extractDate pat_ipl data_string) d) (\<lambda>d.
     and_then (set_item ''lfc'' (extractDate pat_lfc data_string) d) (\<lambda>d.
     and_then (set_item ''debye_waller'' (extractDate pat_debye_waller data_string) d) (\<lambda>d.
     Inr d))))))))))"

definition static_patterns :: "item list list" where
  "static_patterns = [pat_fk, pat_qk, pat_Sk_ion, pat_Sk_free, pat_Sk_core, pat_Wk,
                      pat_Sk_total, pat_ipl, pat_lfc, pat_debye_waller]"

definition static_keys :: "string set" where
  "static_keys = {''fk'', ''qk'', ''Sk_ion'', ''Sk_free'', ''Sk_core'', ''Wk'', ''Sk_total'',
                  ''ipl'', ''lfc'', ''debye_waller''}"

section \<open>\<^verbatim>\<open>DetectorGeometryParameters\<close>\<close>

text \<open>
  The values a parameter can be assigned: \<^verbatim>\<open>None\<close>, a float (also a
  \<^verbatim>\<open>numpy.float64\<close>, which is an instance of \<^verbatim>\<open>float\<close>), an integer, a
  string, a boolean. \<open>isinstance\<close> is Python's test against the two classes the
  setters name.
\<close>

datatype pyval = PNone | PFloat pyfloat | PInt int | PStr string | PBool bool

datatype pytype = TFloat | TStr

fun isinstance :: "pyval \<Rightarrow> pytype \<Rightarrow> bool" where
  "isinstance (PFloat x) TFloat = True"
| "isinstance (PStr s) TStr = True"
| "isinstance v t = False"

text \<open>
  Modelled from the spec: \<^verbatim>\<open>checkAndSetInstance\<close> of
  \<^verbatim>\<open>SimEx.Utilities.EntityChecks\<close>, which the setters call and which is not among
  the sources. The spec has the parameters "validated on assignment; invalid types fail
  immediately", and validation that "rejects wrong types/defaults": the value is checked
  against the class, \<^verbatim>\<open>None\<close> stands for the default, which is checked too.
\<close>

definition checkAndSetInstance :: "pytype \<Rightarrow> pyval \<Rightarrow> pyval \<Rightarrow> error + pyval" where
  "checkAndSetInstance cls var dflt =
     (if var = PNone
      then (if dflt = PNone then Inr PNone
            else if \<not> isinstance dflt cls then Inl TypeError
            else Inr dflt)
      else if \<not> isinstance var cls then Inl TypeError
      else Inr var)"

record DetectorGeometryParameters =
  photon_energy :: pyval
  photon_energy_relative_bandwidth :: pyval
  beam_diameter_fwhm :: pyval
  pulse_energy :: pyval
  divergence :: pyval
  photon_energy_spectrum_type :: pyval

text \<open>The property setters: each stores what \<^verbatim>\<open>checkAndSetInstance\<close> returns.\<close>

definition set_photon_energy ::
  "pyval \<Rightarrow> DetectorGeometryParameters \<Rightarrow> error + DetectorGeometryParameters" where
  "set_photon_energy val self =
     and_then (checkAndSetInstance TFloat val PNone) (\<lambda>v. Inr (self\<lparr>photon_energy := v\<rparr>))"

definition set_photon_energy_spectrum_type ::
  "pyval \<Rightarrow> DetectorGeometryParameters \<Rightarrow> error + DetectorGeometryParameters" where
  "set_photon_energy_spectrum_type val self =
     and_then (checkAndSetInstance TStr val (PStr ''SASE''))
       (\<lambda>v. Inr (self\<lparr>photon_energy_spectrum_type := v\<rparr>))"

definition set_photon_energy_relative_bandwidth ::
  "pyval \<Rightarrow> DetectorGeometryParameters \<Rightarrow> error + DetectorGeometryParameters" where
  "set_photon_energy_relative_bandwidth val self =
     and_then (checkAndSetInstance TFloat val (PFloat (round64 0.01)))
       (\<lambda>v. Inr (self\<lparr>photon_energy_relative_bandwidth := v\<rparr>))"

definition set_beam_diameter_fwhm ::
  "pyval \<Rightarrow> DetectorGeometryParameters \<Rightarrow> error + DetectorGeometryParameters" where
  "set_beam_diameter_fwhm val self =
     and_then (checkAndSetInstance TFloat val PNone) (\<lambda>v. Inr (self\<lparr>beam_diameter_fwhm := v\<rparr>))"

definition set_divergence ::
  "pyval \<Rightarrow> DetectorGeometryParameters \<Rightarrow> error + DetectorGeometryParameters" where
  "set_divergence val self =
     and_then (checkAndSetInstance TFloat val (PFloat (Fin 0.0)))
       (\<lambda>v. Inr (self\<lparr>divergence := v\<rparr>))"

definition set_pulse_energy ::
  "pyval \<Rightarrow> DetectorGeometryParameters \<Rightarrow> error + DetectorGeometryParameters" where
  "set_pulse_energy val self =
     and_then (checkAndSetInstance TFloat val PNone) (\<lambda>v. Inr (self\<lparr>pulse_energy := v\<rparr>))"

text \<open>
  The object before the constructor's assignments: no attribute is set yet. The fields
  inherited from \<^verbatim>\<open>AbstractCalculatorParameters\<close> are left out.
\<close>

definition unset_parameters :: DetectorGeometryParameters where
  "unset_parameters =
     \<lparr>photon_energy = PNone, photon_energy_relative_bandwidth = PNone,
      beam_diameter_fwhm = PNone, pulse_energy = PNone, divergence = PNone,
      photon_energy_spectrum_type = PNone\<rparr>"

definition DetectorGeometryParameters_init ::
  "pyval \<Rightarrow> pyval \<Rightarrow> pyval \<Rightarrow> pyval \<Rightarrow> pyval \<Rightarrow> pyval \<Rightarrow> error + DetectorGeometryParameters" where
  "DetectorGeometryParameters_init photon_energy_arg beam_diameter_fwhm_arg pulse_energy_arg
       photon_energy_relative_bandwidth_arg divergence_arg photon_energy_spectrum_type_arg =
     and_then (set_photon_energy photon_energy_arg unset_parameters) (\<lambda>self.
     and_then (set_photon_energy_relative_bandwidth photon_energy_relative_bandwidth_arg self) (\<lambda>self.
     and_then (set_beam_diameter_fwhm beam_diameter_fwhm_arg self) (\<lambda>self.
     and_then (set_pulse_energy pulse_energy_arg self) (\<lambda>self.
     and_then (set_divergence divergence_arg self) (\<lambda>self.
     set_photon_energy_spectrum_type photon_energy_spectrum_type_arg self)))))"

section \<open>\<^verbatim>\<open>propToBeamParameters\<close>\<close>

text \<open>
  What the function reads from the wavefront that \<^verbatim>\<open>wpg\<close> loads: the pulse
  energy, the transverse mesh, and for the time and the frequency representation the
  slice range and the intensity summed over each slice
  (\<^verbatim>\<open>get_intensity().sum(axis=0).sum(axis=0)\<close>, one entry per slice, so
  \<^verbatim>\<open>mesh.nSlices\<close> is the length of that list); then the two results of
  \<^verbatim>\<open>calculate_fwhm\<close>, in real space and in reciprocal space.
\<close>

record wavefront =
  wf_pulse_energy :: pyfloat
  xMin :: pyfloat
  xMax :: pyfloat
  nx :: int
  yMin :: pyfloat
  yMax :: pyfloat
  ny :: int
  sliceMin_t :: pyfloat
  sliceMax_t :: pyfloat
  intensity_t :: "pyfloat list"
  sliceMin_f :: pyfloat
  sliceMax_f :: pyfloat
  intensity_f :: "pyfloat list"
  xy_fwhm_x :: real
  xy_fwhm_y :: real
  qxqy_fwhm_x :: real
  qxqy_fwhm_y :: real

text \<open>\<^verbatim>\<open>scipy.constants.hbar\<close> and \<^verbatim>\<open>scipy.constants.e\<close>.\<close>

record constants =
  hbar :: real
  e :: real

text \<open>
  The floating-point arithmetic. The operations of binary64 (product, difference,
  quotient and square root, each with its rounding, its infinities and its
  not-a-number), the power of an array entry (\<open>fpow\<close>, in \<^verbatim>\<open>t**2\<close>) and of a scalar
  (\<open>scalar_pow\<close>, in \<^verbatim>\<open>m1**2\<close>), the order in which \<^verbatim>\<open>numpy.sum\<close> adds, and the
  points that \<^verbatim>\<open>numpy.linspace\<close> computes are taken as given:
  \<open>linspace_point a b n i\<close> is entry \<open>i\<close> of \<^verbatim>\<open>numpy.linspace(a, b, n)\<close>. What the
  function does with these operations is modelled; nothing is assumed of their values.
\<close>

record arith =
  fmul :: "pyfloat \<Rightarrow> pyfloat \<Rightarrow> pyfloat"
  fsub :: "pyfloat \<Rightarrow> pyfloat \<Rightarrow> pyfloat"
  fdiv :: "pyfloat \<Rightarrow> pyfloat \<Rightarrow> pyfloat"
  fpow :: "pyfloat \<Rightarrow> nat \<Rightarrow> pyfloat"
  scalar_pow :: "pyfloat \<Rightarrow> nat \<Rightarrow> pyfloat"
  fsqrt :: "pyfloat \<Rightarrow> pyfloat"
  fsum :: "pyfloat list \<Rightarrow> pyfloat"
  linspace_point :: "pyfloat \<Rightarrow> pyfloat \<Rightarrow> nat \<Rightarrow> nat \<Rightarrow> pyfloat"

text \<open>
  The two tests that decide whether an operation raises: a Python float division
  raises on a divisor that is a zero of either sign, and \<^verbatim>\<open>math.sqrt\<close> raises on
  a negative number and on minus infinity, not on the negative zero and not on
  not-a-number.
\<close>

definition is_zero :: "pyfloat \<Rightarrow> bool" where
  "is_zero x = (x = Fin 0 \<or> x = NegZero)"

definition is_negative :: "pyfloat \<Rightarrow> bool" where
  "is_negative x = (case x of Fin r \<Rightarrow> r < 0 | NegInf \<Rightarrow> True | _ \<Rightarrow> False)"

datatype 'a outcome = Raises error | Returns 'a

definition obind :: "'a outcome \<Rightarrow> ('a \<Rightarrow> 'b outcome) \<Rightarrow> 'b outcome" where
  "obind r f = (case r of Raises x \<Rightarrow> Raises x | Returns v \<Rightarrow> f v)"

definition lift :: "error + 'a \<Rightarrow> 'a outcome" where
  "lift r = (case r of Inl x \<Rightarrow> Raises x | Inr v \<Rightarrow> Returns v)"

text \<open>
  A division of Python floats raises on a zero divisor; a division in which a
  \<^verbatim>\<open>numpy.float64\<close> takes part only warns and gives the quotient of binary64, an
  infinity or not-a-number.
\<close>

definition py_div :: "arith \<Rightarrow> pyfloat \<Rightarrow> pyfloat \<Rightarrow> pyfloat outcome" where
  "py_div ar a b = (if is_zero b then Raises ZeroDivisionError else Returns (fdiv ar a b))"

definition np_div :: "arith \<Rightarrow> pyfloat \<Rightarrow> pyfloat \<Rightarrow> pyfloat" where
  "np_div ar a b = fdiv ar a b"

definition math_sqrt :: "arith \<Rightarrow> pyfloat \<Rightarrow> pyfloat outcome" where
  "math_sqrt ar x = (if is_negative x then Raises ValueError else Returns (fsqrt ar x))"

definition linspace :: "arith \<Rightarrow> pyfloat \<Rightarrow> pyfloat \<Rightarrow> nat \<Rightarrow> pyfloat list" where
  "linspace ar start stop num = map (linspace_point ar start stop num) [0..<num]"

text \<open>The operations on arrays work entry by entry.\<close>

definition np_mul :: "arith \<Rightarrow> pyfloat list \<Rightarrow> pyfloat list \<Rightarrow> pyfloat list" where
  "np_mul ar xs ys = map2 (fmul ar) xs ys"

definition np_sub :: "arith \<Rightarrow> pyfloat list \<Rightarrow> pyfloat list \<Rightarrow> pyfloat list" where
  "np_sub ar xs ys = map2 (fsub ar) xs ys"

definition np_scale :: "arith \<Rightarrow> pyfloat list \<Rightarrow> pyfloat \<Rightarrow> pyfloat list" where
  "np_scale ar xs c = map (\<lambda>x. fmul ar x c) xs"

definition np_pow :: "arith \<Rightarrow> pyfloat list \<Rightarrow> nat \<Rightarrow> pyfloat list" where
  "np_pow ar xs k = map (\<lambda>x. fpow ar x k) xs"

text \<open>
  The mesh bounds, the slice ranges, the intensities and the pulse energy are floats of
  any kind; the two constants and the widths that \<^verbatim>\<open>calculate_fwhm\<close> returns are
  finite floats. The mesh counts are integers, which the division turns into floats of
  the same value.
\<close>

definition propToBeamParameters ::
  "arith \<Rightarrow> constants \<Rightarrow> files \<Rightarrow> (string \<Rightarrow> error + wavefront) \<Rightarrow> string
     \<Rightarrow> DetectorGeometryParameters outcome" where
  "propToBeamParameters ar cs fs load_hdf5 prop_output_path =
     (if \<not> isfile fs prop_output_path then Raises IOError
      else
        obind (lift (load_hdf5 prop_output_path)) (\<lambda>wf.
        let pulse_energy_v = wf_pulse_energy wf in
        obind (py_div ar (fsub ar (xMax wf) (xMin wf)) (Fin (of_int (nx wf - 1)))) (\<lambda>dx.
        obind (py_div ar (fsub ar (yMax wf) (yMin wf)) (Fin (of_int (ny wf - 1)))) (\<lambda>dy.
        let int0 = intensity_t wf;
            total_intensity = np_scale ar (np_scale ar int0 dx) dy;
            times = linspace ar (sliceMin_t wf) (sliceMax_t wf) (length int0);
            t = butlast times;
            dt = np_sub ar (tl times) (butlast times);
            It = butlast total_intensity;
            m0 = fsum ar (np_mul ar It dt);
            m1 = np_div ar (fsum ar (np_mul ar (np_mul ar It t) dt)) m0;
            m2 = np_div ar (fsum ar (np_mul ar (np_mul ar It (np_pow ar t 2)) dt)) m0
        in
        obind (math_sqrt ar (fsub ar m2 (scalar_pow ar m1 2))) (\<lambda>rms.
        obind (py_div ar (Fin (hbar cs)) rms) (\<lambda>spike_fwhm_J.
        obind (py_div ar spike_fwhm_J (Fin (e cs))) (\<lambda>spike_fwhm_eV.
        let spectrum = intensity_f wf;
            energies = linspace ar (sliceMin_f wf) (sliceMax_f wf) (length spectrum);
            w = butlast energies;
            dw = np_sub ar (tl energies) (butlast energies);
            Iw = butlast spectrum;
            m0 = fsum ar (np_mul ar Iw dw);
            m1 = np_div ar (fsum ar (np_mul ar (np_mul ar Iw w) dw)) m0;
            m2 = np_div ar (fsum ar (np_mul ar (np_mul ar Iw (np_pow ar w 2)) dw)) m0
        in
        obind (math_sqrt ar (fsub ar m2 (scalar_pow ar m1 2))) (\<lambda>rms.
        let photon_energy_v = m1;
            spec_fwhm_eV = rms
        in
        lift (DetectorGeometryParameters_init
                (PFloat photon_energy_v)
                (PFloat (Fin (max (xy_fwhm_x wf) (xy_fwhm_y wf))))
                (PFloat pulse_energy_v)
                (PFloat (np_div ar spike_fwhm_eV photon_energy_v))
                (PFloat (Fin (max (qxqy_fwhm_x wf) (qxqy_fwhm_y wf) / 2)))
                (PStr ''SASE''))))))))))"

section \<open>\<^verbatim>\<open>PlasmaXRTSCalculator\<close>\<close>

text \<open>
  An instance of \<^verbatim>\<open>AbstractCalculatorParameters\<close>, as the calculator uses it: it
  reads the attribute \<^verbatim>\<open>_tmp_dir\<close> and calls \<^verbatim>\<open>_serialize()\<close>. The argument
  of the constructor is such an instance or any other Python value.
\<close>

record xrts_parameters =
  tmp_dir :: string

datatype pyobject = Parameters xrts_parameters | Other pyval

fun checkAndSetParameters :: "pyobject \<Rightarrow> error + xrts_parameters" where
  "checkAndSetParameters (Parameters q) = Inr q"
| "checkAndSetParameters (Other v) = Inl RuntimeError"

text \<open>
  The fields of the calculator that the methods below assign. \<^verbatim>\<open>__run_log\<close>,
  \<^verbatim>\<open>__run_data\<close> and \<^verbatim>\<open>__static_data\<close> do not exist until they are
  assigned: \<open>None\<close>.
\<close>

record calculator =
  parameters :: xrts_parameters
  input_path :: pyval
  output_path :: pyval
  is_initialized :: bool
  run_log :: "string option"
  run_data :: "real list list option"
  static_data :: "static_dict option"

text \<open>
  The constructor checks the parameters first, then runs the constructor of the base
  class \<^verbatim>\<open>AbstractPhotonDiffractor\<close> (not among the sources: \<open>base_init\<close>, which
  returns the two paths as it stores them).
\<close>

definition PlasmaXRTSCalculator_init ::
  "(xrts_parameters \<Rightarrow> pyval \<Rightarrow> pyval \<Rightarrow> error + pyval \<times> pyval)
     \<Rightarrow> pyobject \<Rightarrow> pyval \<Rightarrow> pyval \<Rightarrow> error + calculator" where
  "PlasmaXRTSCalculator_init base_init parameters_arg input_path_arg output_path_arg =
     and_then (checkAndSetParameters parameters_arg) (\<lambda>p.
     and_then (base_init p input_path_arg output_path_arg) (\<lambda>(ip, op).
     Inr \<lparr>parameters = p, input_path = ip, output_path = op, is_initialized = False,
          run_log = None, run_data = None, static_data = None\<rparr>))"

text \<open>
  The operating system as \<^verbatim>\<open>backengine\<close> sees it: the files, the working
  directory of the Python process, and the processes started so far, each with its
  argument list and the directory it was started in.
\<close>

record os_state =
  files :: files
  cwd :: string
  spawned :: "(string list \<times> string) list"

text \<open>
  What lies outside the module: \<^verbatim>\<open>parameters._serialize()\<close>, which writes the
  input deck; the program that \<^verbatim>\<open>subprocess.Popen\<close> starts, which gives its
  standard output, its standard error and the files it leaves, or cannot be started
  (\<^verbatim>\<open>OSError\<close>); and \<^verbatim>\<open>numpy.loadtxt\<close>.
\<close>

record environment =
  serialize :: "xrts_parameters \<Rightarrow> files \<Rightarrow> error + xrts_parameters \<times> files"
  program :: "string list \<Rightarrow> string \<Rightarrow> files \<Rightarrow> error + string \<times> string \<times> files"
  loadtxt :: "string \<Rightarrow> files \<Rightarrow> error + real list list"

definition path_join :: "string \<Rightarrow> string \<Rightarrow> string" where
  \<comment> \<open>\<^verbatim>\<open>os.path.join(a, b)\<close>\<close>
  "path_join a b =
     (case b of
        [] \<Rightarrow> (if a = [] \<or> last a = CHR ''/'' then a else a @ ''/'')
      | c # b' \<Rightarrow>
          (if c = CHR ''/'' then b
           else if a = [] \<or> last a = CHR ''/'' then a @ b
           else a @ ''/'' @ b))"

text \<open>
  \<^verbatim>\<open>backengine\<close> returns nothing or raises; the calculator and the operating
  system are returned as the call leaves them. In Python 2,
  \<^verbatim>\<open>raise( RuntimeError, "..." )\<close> raises the first component of the tuple.
  Writing \<^verbatim>\<open>xrts.log\<close> into the directory the tool has just run in is taken to
  succeed.
\<close>

definition backengine ::
  "environment \<Rightarrow> calculator \<Rightarrow> os_state \<Rightarrow> (error + unit) \<times> calculator \<times> os_state" where
  "backengine env self os =
     (case serialize env (parameters self) (files os) of
        Inl x \<Rightarrow> (Inl x, self, os)
      | Inr (p, fs) \<Rightarrow>
          (let self = self\<lparr>parameters := p\<rparr>;
               os = os\<lparr>files := fs\<rparr>;
               pwd = cwd os;
               command_sequence = [''xrs''];
               os = os\<lparr>spawned := spawned os @ [(command_sequence, tmp_dir (parameters self))]\<rparr>
           in case program env command_sequence (tmp_dir (parameters self)) (files os) of
                Inl x \<Rightarrow> (Inl x, self, os)
              | Inr (out, err, fs') \<Rightarrow>
                  (let os = os\<lparr>files := fs'\<rparr> in
                   if \<not> err = '''' then (Inl RuntimeError, self, os)
                   else
                     (let path_to_data = path_join (tmp_dir (parameters self)) ''xrts_out.txt'' in
                      if \<not> isfile (files os) path_to_data then (Inl IOError, self, os)
                      else
                        (let self = self\<lparr>run_log := Some out\<rparr>;
                             os = os\<lparr>files := (files os)
                                    (path_join (tmp_dir (parameters self)) ''xrts.log'' \<mapsto> out)\<rparr>
                         in case loadtxt env path_to_data (files os) of
                              Inl x \<Rightarrow> (Inl x, self, os)
                            | Inr d \<Rightarrow>
                                (Inr (), self\<lparr>run_data := Some d\<rparr>, os\<lparr>cwd := pwd\<rparr>))))))"

section \<open>The moments as the specification states them\<close>

text \<open>
  The specification's formulas, over a curve \<open>I\<close> sampled at the points \<open>t\<close>, with
  \<open>dt i = t (i + 1) - t i\<close> and the last sample left out:
  \<open>m0 = sum (I * dt)\<close>, \<open>m1 = sum (I * t * dt) / m0\<close>, \<open>m2 = sum (I * t^2 * dt) / m0\<close>,
  \<open>rms = sqrt (m2 - m1^2)\<close>, each operation that of the floating-point arithmetic.
\<close>

definition spec_m0 :: "arith \<Rightarrow> (nat \<Rightarrow> pyfloat) \<Rightarrow> (nat \<Rightarrow> pyfloat) \<Rightarrow> nat \<Rightarrow> pyfloat" where
  "spec_m0 ar I t n =
     fsum ar (map (\<lambda>i. fmul ar (I i) (fsub ar (t (Suc i)) (t i))) [0..<n - 1])"

definition spec_m1 :: "arith \<Rightarrow> (nat \<Rightarrow> pyfloat) \<Rightarrow> (nat \<Rightarrow> pyfloat) \<Rightarrow> nat \<Rightarrow> pyfloat" where
  "spec_m1 ar I t n =
     fdiv ar (fsum ar (map (\<lambda>i. fmul ar (fmul ar (I i) (t i)) (fsub ar (t (Suc i)) (t i)))
                         [0..<n - 1]))
       (spec_m0 ar I t n)"

definition spec_m2 :: "arith \<Rightarrow> (nat \<Rightarrow> pyfloat) \<Rightarrow> (nat \<Rightarrow> pyfloat) \<Rightarrow> nat \<Rightarrow> pyfloat" where
  "spec_m2 ar I t n =
     fdiv ar (fsum ar (map (\<lambda>i. fmul ar (fmul ar (I i) (fpow ar (t i) 2)) (fsub ar (t (Suc i)) (t i)))
                         [0..<n - 1]))
       (spec_m0 ar I t n)"

definition spec_var :: "arith \<Rightarrow> (nat \<Rightarrow> pyfloat) \<Rightarrow> (nat \<Rightarrow> pyfloat) \<Rightarrow> nat \<Rightarrow> pyfloat" where
  "spec_var ar I t n = fsub ar (spec_m2 ar I t n) (scalar_pow ar (spec_m1 ar I t n) 2)"

definition spec_rms :: "arith \<Rightarrow> (nat \<Rightarrow> pyfloat) \<Rightarrow> (nat \<Rightarrow> pyfloat) \<Rightarrow> nat \<Rightarrow> pyfloat" where
  "spec_rms ar I t n =
     fsqrt ar (fsub ar (spec_m2 ar I t n) (scalar_pow ar (spec_m1 ar I t n) 2))"

text \<open>
  The two curves of a wavefront: the intensity of each time slice, scaled by the two
  pixel widths, against the slice times; and the spectrum against the slice energies.
\<close>

definition pixel_dx :: "arith \<Rightarrow> wavefront \<Rightarrow> pyfloat" where
  "pixel_dx ar wv = fdiv ar (fsub ar (xMax wv) (xMin wv)) (Fin (of_int (nx wv - 1)))"

definition pixel_dy :: "arith \<Rightarrow> wavefront \<Rightarrow> pyfloat" where
  "pixel_dy ar wv = fdiv ar (fsub ar (yMax wv) (yMin wv)) (Fin (of_int (ny wv - 1)))"

definition nSlices_t :: "wavefront \<Rightarrow> nat" where
  "nSlices_t wv = length (intensity_t wv)"

definition nSlices_f :: "wavefront \<Rightarrow> nat" where
  "nSlices_f wv = length (intensity_f wv)"

definition curve_t :: "arith \<Rightarrow> wavefront \<Rightarrow> nat \<Rightarrow> pyfloat" where
  "curve_t ar wv i =
     fmul ar (fmul ar (intensity_t wv ! i) (pixel_dx ar wv)) (pixel_dy ar wv)"

definition times_t :: "arith \<Rightarrow> wavefront \<Rightarrow> nat \<Rightarrow> pyfloat" where
  "times_t ar wv = linspace_point ar (sliceMin_t wv) (sliceMax_t wv) (nSlices_t wv)"

definition curve_f :: "wavefront \<Rightarrow> nat \<Rightarrow> pyfloat" where
  "curve_f wv i = intensity_f wv ! i"

definition energies_f :: "arith \<Rightarrow> wavefront \<Rightarrow> nat \<Rightarrow> pyfloat" where
  "energies_f ar wv = linspace_point ar (sliceMin_f wv) (sliceMax_f wv) (nSlices_f wv)"

definition var_t :: "arith \<Rightarrow> wavefront \<Rightarrow> pyfloat" where
  "var_t ar wv = spec_var ar (curve_t ar wv) (times_t ar wv) (nSlices_t wv)"

definition rms_t :: "arith \<Rightarrow> wavefront \<Rightarrow> pyfloat" where
  "rms_t ar wv = spec_rms ar (curve_t ar wv) (times_t ar wv) (nSlices_t wv)"

definition var_f :: "arith \<Rightarrow> wavefront \<Rightarrow> pyfloat" where
  "var_f ar wv = spec_var ar (curve_f wv) (energies_f ar wv) (nSlices_f wv)"

definition mean_photon_energy :: "arith \<Rightarrow> wavefront \<Rightarrow> pyfloat" where
  "mean_photon_energy ar wv = spec_m1 ar (curve_f wv) (energies_f ar wv) (nSlices_f wv)"

definition spec_bandwidth :: "arith \<Rightarrow> constants \<Rightarrow> wavefront \<Rightarrow> pyfloat" where
  "spec_bandwidth ar cs wv =
     fdiv ar (fdiv ar (fdiv ar (Fin (hbar cs)) (rms_t ar wv)) (Fin (e cs)))
       (mean_photon_energy ar wv)"

section \<open>Example inputs\<close>

text \<open>A run log with the ten lines that \<^verbatim>\<open>parseStaticData\<close> looks for.\<close>

definition sample_log :: string where
  "sample_log =
     ''f(k)   = 0.873'' @ [CHR 0x0A] @
     ''q(k)   = 0.127'' @ [CHR 0x0A] @
     ''S_ii(k) = 1.250'' @ [CHR 0x0A] @
     ''S_ee^0(k) = 0.950'' @ [CHR 0x0A] @
     ''Core_inelastic(k) = 0.300'' @ [CHR 0x0A] @
     ''Elastic(k) = 1.100'' @ [CHR 0x0A] @
     ''S_total(k) = 2.350'' @ [CHR 0x0A] @
     ''IP depression [eV] = 12.500'' @ [CHR 0x0A] @
     ''G(k) = 0.450'' @ [CHR 0x0A] @
     ''Debye-Waller = 1'' @ [CHR 0x0A]"

text \<open>
  A wavefront of three slices with the pulse in the first two, and one with the whole
  pulse in the second slice; the constants are those of CODATA 2014.
\<close>

definition example_constants :: constants where
  "example_constants = \<lparr>hbar = 1.0545718 / 10 ^ 34, e = 1.6021766208 / 10 ^ 19\<rparr>"

definition example_wavefront :: wavefront where
  "example_wavefront =
     \<lparr>wf_pulse_energy = Fin 0.001,
      xMin = Fin (- 1), xMax = Fin 1, nx = 3,
      yMin = Fin (- 1), yMax = Fin 1, ny = 3,
      sliceMin_t = Fin 0, sliceMax_t = Fin 2, intensity_t = [Fin 1, Fin 1, Fin 0],
      sliceMin_f = Fin 1, sliceMax_f = Fin 3, intensity_f = [Fin 1, Fin 1, Fin 0],
      xy_fwhm_x = 2, xy_fwhm_y = 3,
      qxqy_fwhm_x = 4, qxqy_fwhm_y = 2\<rparr>"

definition delta_wavefront :: wavefront where
  "delta_wavefront = example_wavefront\<lparr>intensity_t := [Fin 0, Fin 1, Fin 0]\<rparr>"

text \<open>
  An arithmetic for the examples: exact on finite operands, not-a-number elsewhere,
  with the square roots of 0, 1/4, 1, 9/4 and 4 only.
  On the two example wavefronts every difference, product, sum, quotient and root
  that enters the moments and the widths is a small binary fraction, so that binary64
  computes the same moments and widths; the quotients by the two constants, which
  binary64 rounds, are exact here.
\<close>

definition exact2 :: "(real \<Rightarrow> real \<Rightarrow> real) \<Rightarrow> pyfloat \<Rightarrow> pyfloat \<Rightarrow> pyfloat" where
  "exact2 f a b = (case a of Fin x \<Rightarrow> (case b of Fin y \<Rightarrow> Fin (f x y) | _ \<Rightarrow> NaN) | _ \<Rightarrow> NaN)"

definition exact_div :: "pyfloat \<Rightarrow> pyfloat \<Rightarrow> pyfloat" where
  "exact_div a b =
     (case a of
        Fin x \<Rightarrow> (case b of Fin y \<Rightarrow> if y = 0 then NaN else Fin (x / y) | _ \<Rightarrow> NaN)
      | _ \<Rightarrow> NaN)"

definition exact_pow :: "pyfloat \<Rightarrow> nat \<Rightarrow> pyfloat" where
  "exact_pow a k = (case a of Fin x \<Rightarrow> Fin (x ^ k) | _ \<Rightarrow> NaN)"

definition exact_roots :: "real list" where
  "exact_roots = [0, 1 / 2, 1, 3 / 2, 2]"

definition exact_sqrt :: "pyfloat \<Rightarrow> pyfloat" where
  "exact_sqrt a =
     (case a of
        Fin x \<Rightarrow> (case find (\<lambda>r. r * r = x) exact_roots of Some r \<Rightarrow> Fin r | None \<Rightarrow> NaN)
      | _ \<Rightarrow> NaN)"

definition exact_point :: "pyfloat \<Rightarrow> pyfloat \<Rightarrow> nat \<Rightarrow> nat \<Rightarrow> pyfloat" where
  "exact_point a b n i =
     (case a of
        Fin x \<Rightarrow>
          (case b of
             Fin y \<Rightarrow> Fin (if n = 1 then x else x + real i * ((y - x) / real (n - 1)))
           | _ \<Rightarrow> NaN)
      | _ \<Rightarrow> NaN)"

definition exact_arith :: arith where
  "exact_arith =
     \<lparr>fmul = exact2 (*), fsub = exact2 (-), fdiv = exact_div, fpow = exact_pow,
      scalar_pow = exact_pow, fsqrt = exact_sqrt, fsum = foldl (exact2 (+)) (Fin 0), linspace_point = exact_point\<rparr>"

definition example_files :: files where
  "example_files = [''prop_out.h5'' \<mapsto> ''wavefront'']"

definition example_beam_parameters :: DetectorGeometryParameters where
  "example_beam_parameters =
     \<lparr>photon_energy = PFloat (Fin (3 / 2)),
      photon_energy_relative_bandwidth =
        PFloat (Fin (((1.0545718 / 10 ^ 34) / (1 / 2)) / (1.6021766208 / 10 ^ 19) / (3 / 2))),
      beam_diameter_fwhm = PFloat (Fin 3),
      pulse_energy = PFloat (Fin 0.001),
      divergence = PFloat (Fin 2),
      photon_energy_spectrum_type = PStr ''SASE''\<rparr>"

text \<open>
  A calculator that has run before, and three tools: one that writes to its standard
  error, one that writes nothing and leaves no output file, one that leaves its output.
\<close>

definition example_calculator :: calculator where
  "example_calculator =
     \<lparr>parameters = \<lparr>tmp_dir = ''/tmp/xrts''\<rparr>, input_path = PNone, output_path = PNone,
      is_initialized = False, run_log = Some ''old log'', run_data = Some [[0, 1]],
      static_data = None\<rparr>"

definition example_os :: os_state where
  "example_os = \<lparr>files = Map.empty, cwd = ''/home/user'', spawned = []\<rparr>"

definition env_stderr :: environment where
  "env_stderr =
     \<lparr>serialize = (\<lambda>p fs. Inr (p, fs(''/tmp/xrts/input.dat'' \<mapsto> ''deck''))),
      program = (\<lambda>cmd dir fs. Inr (''f(k) = 0.873'', ''input error'', fs)),
      loadtxt = (\<lambda>path fs. Inr [[0, 1]])\<rparr>"

definition env_no_output :: environment where
  "env_no_output =
     \<lparr>serialize = (\<lambda>p fs. Inr (p, fs(''/tmp/xrts/input.dat'' \<mapsto> ''deck''))),
      program = (\<lambda>cmd dir fs. Inr ('''', '''', fs)),
      loadtxt = (\<lambda>path fs. Inr [[0, 1]])\<rparr>"

definition env_output :: environment where
  "env_output =
     \<lparr>serialize = (\<lambda>p fs. Inr (p, fs(''/tmp/xrts/input.dat'' \<mapsto> ''deck''))),
      program = (\<lambda>cmd dir fs. Inr (''f(k) = 0.873'', '''', fs(''/tmp/xrts/xrts_out.txt'' \<mapsto> ''0 1''))),
      loadtxt = (\<lambda>path fs. Inr [[0, 1]])\<rparr>"

definition sample_static_data :: static_dict where
  "sample_static_data =
     [''fk'' \<mapsto> round64 0.873, ''qk'' \<mapsto> round64 0.127, ''Sk_ion'' \<mapsto> round64 1.25,
      ''Sk_free'' \<mapsto> round64 0.95, ''Sk_core'' \<mapsto> round64 0.3, ''Wk'' \<mapsto> round64 1.1,
      ''Sk_total'' \<mapsto> round64 2.35, ''ipl'' \<mapsto> round64 12.5, ''lfc'' \<mapsto> round64 0.45,
      ''debye_waller'' \<mapsto> round64 1]"

definition example_load :: "string \<Rightarrow> error + wavefront" where
  "example_load path = Inr example_wavefront"

definition delta_load :: "string \<Rightarrow> error + wavefront" where
  "delta_load path = Inr delta_wavefront"

definition example_base_init :: "xrts_parameters \<Rightarrow> pyval \<Rightarrow> pyval \<Rightarrow> error + pyval \<times> pyval" where
  "example_base_init p ip op = Inr (ip, op)"

section \<open>Sequencing and evaluation lemmas\<close>

lemma and_then_simps [simp]:
  "and_then (Inl x) f = Inl x" "and_then (Inr v) f = f v"
  by (simp_all add: and_then_def)

lemma set_item_simps [simp]:
  "set_item k (Inl x) d = Inl x" "set_item k (Inr v) d = Inr (d(k \<mapsto> v))"
  by (simp_all add: set_item_def)

lemma and_then_set_itemE:
  assumes "and_then (set_item k r d0) f = Inr d"
  obtains v where "r = Inr v" and "f (d0(k \<mapsto> v)) = Inr d"
  using assms by (cases r) simp_all

text \<open>
  The scan for the first match, one character at a time: these equations let the
  simplifier run \<^verbatim>\<open>extractDate\<close> on a given text.
\<close>

lemma extractDate_skip:
  "match_here p (c # s) = None \<Longrightarrow> extractDate p (c # s) = extractDate p s"
  by (simp add: extractDate_def findall.simps [of p "c # s"])

lemma extractDate_hit:
  "match_here p s = Some n \<Longrightarrow> 0 < n \<Longrightarrow>
   extractDate p s = (case rev (re_split eq_space (take n s)) of
                        [] \<Rightarrow> Inl IndexError | q # qs \<Rightarrow> py_float q)"
  by (simp add: extractDate_def findall.simps [of p s])

lemma extractDate_Nil: "match_here p [] = None \<Longrightarrow> extractDate p [] = Inl IndexError"
  by (simp add: extractDate_def findall.simps [of p "[]"])

lemma split_skip:
  "match_here r (c # s) = None \<Longrightarrow> split_acc r acc (c # s) = split_acc r (c # acc) s"
  by (simp add: split_acc.simps [of r acc "c # s"])

lemma split_hit:
  "match_here r (c # s) = Some n \<Longrightarrow> 0 < n \<Longrightarrow>
   split_acc r acc (c # s) = rev acc # split_acc r [] (drop n (c # s))"
  by (simp add: split_acc.simps [of r acc "c # s"])

lemma split_end: "split_acc r acc [] = [rev acc]"
  by (simp add: split_acc.simps [of r acc "[]"])

lemmas extract_eval = extractDate_skip extractDate_hit extractDate_Nil split_skip split_hit
  split_end re_split_def eq_space_def lits_def number_tail_def is_space_def is_digit_def

lemmas py_float_eval = py_float_def strip_def is_space_def is_digit_def parse_decimal_def
  parse_exponent_def lower_def nat_of_digits_def digit_val_def

lemma round64_zero: "round64 0 = Fin 0"
  by (simp add: round64_def)

lemma py_float_examples:
  "py_float ''0.873'' = Inr (round64 0.873)" "py_float ''0.127'' = Inr (round64 0.127)"
  "py_float ''1.250'' = Inr (round64 1.25)" "py_float ''0.950'' = Inr (round64 0.95)"
  "py_float ''0.300'' = Inr (round64 0.3)" "py_float ''1.100'' = Inr (round64 1.1)"
  "py_float ''2.350'' = Inr (round64 2.35)" "py_float ''12.500'' = Inr (round64 12.5)"
  "py_float ''0.450'' = Inr (round64 0.45)" "py_float ''1'' = Inr (round64 1)"
  "py_float ''0'' = Inr (Fin 0)" "py_float ''+'' = Inl ValueError"
  by (simp_all add: py_float_eval round64_zero)

lemma sample_fk: "extractDate pat_fk sample_log = Inr (round64 0.873)"
  by (simp add: extract_eval sample_log_def pat_fk_def py_float_examples)

lemma sample_qk: "extractDate pat_qk sample_log = Inr (round64 0.127)"
  by (simp add: extract_eval sample_log_def pat_qk_def py_float_examples)

lemma sample_Sk_ion: "extractDate pat_Sk_ion sample_log = Inr (round64 1.25)"
  by (simp add: extract_eval sample_log_def pat_Sk_ion_def py_float_examples)

lemma sample_Sk_free: "extractDate pat_Sk_free sample_log = Inr (round64 0.95)"
  by (simp add: extract_eval sample_log_def pat_Sk_free_def py_float_examples)

lemma sample_Sk_core: "extractDate pat_Sk_core sample_log = Inr (round64 0.3)"
  by (simp add: extract_eval sample_log_def pat_Sk_core_def py_float_examples)

lemma sample_Wk: "extractDate pat_Wk sample_log = Inr (round64 1.1)"
  by (simp add: extract_eval sample_log_def pat_Wk_def py_float_examples)

lemma sample_Sk_total: "extractDate pat_Sk_total sample_log = Inr (round64 2.35)"
  by (simp add: extract_eval sample_log_def pat_Sk_total_def py_float_examples)

lemma sample_ipl: "extractDate pat_ipl sample_log = Inr (round64 12.5)"
  by (simp add: extract_eval sample_log_def pat_ipl_def py_float_examples)

lemma sample_lfc: "extractDate pat_lfc sample_log = Inr (round64 0.45)"
  by (simp add: extract_eval sample_log_def pat_lfc_def py_float_examples)

lemma sample_debye_waller: "extractDate pat_debye_waller sample_log = Inr (round64 1)"
  by (simp add: extract_eval sample_log_def pat_debye_waller_def py_float_examples)

lemmas sample_extractions = sample_fk sample_qk sample_Sk_ion sample_Sk_free sample_Sk_core
  sample_Wk sample_Sk_total sample_ipl sample_lfc sample_debye_waller

lemma parseStaticData_sample: "parseStaticData sample_log = Inr sample_static_data"
  by (simp add: parseStaticData_def sample_extractions sample_static_data_def)

section \<open>The static data parsed from the run log\<close>

lemma findall_empty_raises: "findall p text = [] \<Longrightarrow> extractDate p text = Inl IndexError"
  by (simp add: extractDate_def)

lemma parseStaticData_Inr:
  assumes "parseStaticData text = Inr d"
  shows "dom d = static_keys \<and> (\<forall>p \<in> set static_patterns. \<exists>v. extractDate p text = Inr v)"
  using assms unfolding parseStaticData_def
  apply (elim and_then_set_itemE)
  apply (clarsimp simp: static_keys_def static_patterns_def insert_commute)
  done

text \<open>
  C9. For every input string, \<^verbatim>\<open>parseStaticData\<close> raises or returns a dictionary
  from strings to floats whose keys are exactly \<open>fk\<close>, \<open>qk\<close>, \<open>Sk_ion\<close>, \<open>Sk_free\<close>,
  \<open>Sk_core\<close>, \<open>Wk\<close>, \<open>Sk_total\<close>, \<open>ipl\<close>, \<open>lfc\<close> and \<open>debye_waller\<close>; it raises
  whenever one of the ten patterns finds nothing in the string.
\<close>

theorem parseStaticData_keys:
  "(\<forall>d. parseStaticData text = Inr d \<longrightarrow> dom d = static_keys)
   \<and> ((\<exists>p \<in> set static_patterns. findall p text = []) \<longrightarrow> (\<exists>x. parseStaticData text = Inl x))"
proof (intro conjI allI impI)
  fix d assume "parseStaticData text = Inr d"
  then show "dom d = static_keys"
    by (simp add: parseStaticData_Inr)
next
  assume "\<exists>p \<in> set static_patterns. findall p text = []"
  then obtain p where p: "p \<in> set static_patterns" and raised: "extractDate p text = Inl IndexError"
    using findall_empty_raises by blast
  show "\<exists>x. parseStaticData text = Inl x"
  proof (cases "parseStaticData text")
    case (Inl x)
    then show ?thesis by blast
  next
    case (Inr d)
    with p have "\<exists>v. extractDate p text = Inr v"
      using parseStaticData_Inr by blast
    with raised show ?thesis by simp
  qed
qed

text \<open>
  On the sample log the dictionary has the ten keys; on the empty string the first
  pattern finds nothing and the call raises.
\<close>

theorem parseStaticData_keys_witness:
  "parseStaticData sample_log = Inr sample_static_data \<and> dom sample_static_data = static_keys
   \<and> findall pat_fk '''' = [] \<and> (\<exists>x. parseStaticData '''' = Inl x)"
proof -
  have none: "findall pat_fk '''' = []"
    by (simp add: findall.simps [of _ "[]"] pat_fk_def lits_def)
  then have "\<exists>p \<in> set static_patterns. findall p '''' = []"
    by (simp add: static_patterns_def)
  with parseStaticData_keys [of "''''"] have "\<exists>x. parseStaticData '''' = Inl x"
    by blast
  moreover from parseStaticData_keys [of sample_log] parseStaticData_sample
  have "dom sample_static_data = static_keys"
    by blast
  ultimately show ?thesis
    using none parseStaticData_sample by blast
qed

section \<open>The value behind the equals sign\<close>

text \<open>
  How the nine patterns that end in \<^verbatim>\<open>\s+=\s\d+\.\d+\<close> match: the literal key, a
  run of whitespace up to the equals sign, one whitespace, and the two runs of digits,
  each as long as it can be.
\<close>

lemma match_here_lits:
  "match_here (lits key @ r) (key @ s) = map_option (\<lambda>n. length key + n) (match_here r s)"
  by (induction key) (simp_all add: lits_def option.map_comp comp_def option.map_ident)

lemma match_here_plus:
  assumes "list_all (atom_ok a) ws" and "ws \<noteq> []"
    and fails: "\<And>c t. atom_ok a c \<Longrightarrow> match_here r (c # t) = None"
    and stop: "match_here (Plus a # r) s = None"
  shows "match_here (Plus a # r) (ws @ s) = map_option (\<lambda>n. length ws + n) (match_here r s)"
  using assms(1,2)
proof (induction ws)
  case Nil
  then show ?case by simp
next
  case (Cons w ws)
  show ?case
  proof (cases "ws = []")
    case True
    with Cons.prems stop show ?thesis
      by (simp add: option.map_comp comp_def)
  next
    case False
    with Cons have IH: "match_here (Plus a # r) (ws @ s)
        = map_option (\<lambda>n. length ws + n) (match_here r s)"
      by simp
    from False obtain c t where ws: "ws = c # t" by (cases ws) auto
    with Cons.prems have "match_here r (ws @ s) = None"
      by (simp add: fails)
    with Cons.prems IH show ?thesis
      by (cases "match_here r s") simp_all
  qed
qed

lemma match_here_plus_last:
  assumes "list_all (atom_ok a) ws" and "ws \<noteq> []"
    and stop: "s = [] \<or> \<not> atom_ok a (hd s)"
  shows "match_here [Plus a] (ws @ s) = Some (length ws)"
  using assms(1,2)
proof (induction ws)
  case Nil
  then show ?case by simp
next
  case (Cons w ws)
  have none: "match_here [Plus a] s = None"
    using stop by (cases s) auto
  show ?case
  proof (cases "ws = []")
    case True
    with Cons.prems none show ?thesis by simp
  next
    case False
    with Cons show ?thesis by simp
  qed
qed

lemma match_here_number_tail:
  assumes "ws \<noteq> []" "list_all is_space ws" "is_space sp"
    and "ip \<noteq> []" "list_all is_digit ip" "fp \<noteq> []" "list_all is_digit fp"
    and rest: "rest = [] \<or> \<not> is_digit (hd rest)"
  shows "match_here number_tail (ws @ CHR ''='' # sp # ip @ CHR ''.'' # fp @ rest)
         = Some (length ws + 2 + length ip + 1 + length fp)"
proof -
  have last: "match_here [Plus Digit] (fp @ rest) = Some (length fp)"
    using assms by (intro match_here_plus_last) (simp_all add: list_all_iff)
  have digits: "match_here [Plus Digit, One (Lit (CHR ''.'')), Plus Digit]
          (ip @ CHR ''.'' # fp @ rest) = Some (length ip + (1 + length fp))"
    using assms(4,5) last
    by (subst match_here_plus) (auto simp: list_all_iff is_digit_def)
  have "match_here number_tail (ws @ CHR ''='' # sp # ip @ CHR ''.'' # fp @ rest)
        = map_option (\<lambda>n. length ws + n)
            (match_here [One (Lit (CHR ''='')), One Space, Plus Digit, One (Lit (CHR ''.'')), Plus Digit]
               (CHR ''='' # sp # ip @ CHR ''.'' # fp @ rest))"
    unfolding number_tail_def using assms(1,2)
    by (intro match_here_plus) (auto simp: list_all_iff is_space_def)
  with digits assms(3) show ?thesis by simp
qed

text \<open>The split at the equals sign, and the float behind it.\<close>

lemma split_acc_no_eq:
  "CHR ''='' \<notin> set u \<Longrightarrow> split_acc eq_space acc (u @ s) = split_acc eq_space (rev u @ acc) s"
proof (induction u arbitrary: acc)
  case Nil
  then show ?case by simp
next
  case (Cons c u)
  then have "match_here eq_space (c # u @ s) = None"
    by (auto simp: eq_space_def)
  with Cons show ?case
    by (simp add: split_skip)
qed

lemma re_split_line:
  assumes "CHR ''='' \<notin> set key" and "list_all is_space ws" and "is_space sp"
    and "list_all is_digit ip" and "list_all is_digit fp"
  shows "re_split eq_space (key @ ws @ CHR ''='' # sp # ip @ CHR ''.'' # fp)
         = [key @ ws, ip @ CHR ''.'' # fp]"
proof -
  have "\<not> is_space (CHR ''='')" "\<not> is_digit (CHR ''='')"
    by (simp_all add: is_space_def is_digit_def)
  then have "CHR ''='' \<notin> set ws" "CHR ''='' \<notin> set ip" "CHR ''='' \<notin> set fp"
    using assms(2,4,5) by (auto simp: list_all_iff)
  then have no_eq: "CHR ''='' \<notin> set (key @ ws)" "CHR ''='' \<notin> set (ip @ CHR ''.'' # fp)"
    using assms(1) by simp_all
  have hit: "match_here eq_space (CHR ''='' # sp # ip @ CHR ''.'' # fp) = Some 2"
    using assms(3) by (simp add: eq_space_def)
  have "re_split eq_space ((key @ ws) @ CHR ''='' # sp # ip @ CHR ''.'' # fp)
        = split_acc eq_space (rev (key @ ws)) (CHR ''='' # sp # ip @ CHR ''.'' # fp)"
    unfolding re_split_def using split_acc_no_eq [OF no_eq(1), of "[]"] by simp
  also have "\<dots> = (key @ ws) # split_acc eq_space [] ((ip @ CHR ''.'' # fp) @ [])"
    using split_hit [OF hit] by simp
  also have "split_acc eq_space [] ((ip @ CHR ''.'' # fp) @ []) = [ip @ CHR ''.'' # fp]"
    unfolding split_acc_no_eq [OF no_eq(2)] by (simp add: split_end)
  finally show ?thesis by simp
qed

lemma dropWhile_keep: "xs \<noteq> [] \<Longrightarrow> \<not> P (hd xs) \<Longrightarrow> dropWhile P xs = xs"
  by (cases xs) simp_all

lemma digit_facts:
  assumes "is_digit c"
  shows "\<not> is_space c" "c \<noteq> CHR ''-''" "c \<noteq> CHR ''+''" "c \<noteq> CHR ''.''" "lower c = c"
    "c \<noteq> CHR ''i''" "c \<noteq> CHR ''n''"
  using assms by (auto simp: is_digit_def is_space_def lower_def)

lemma py_float_decimal:
  assumes "ip \<noteq> []" "list_all is_digit ip" "fp \<noteq> []" "list_all is_digit fp"
  shows "py_float (ip @ CHR ''.'' # fp) = Inr (round64 (decimal_value ip fp))"
proof -
  let ?s = "ip @ CHR ''.'' # fp"
  obtain d ip' where ip: "ip = d # ip'" and d: "is_digit d"
    using assms(1,2) by (cases ip) auto
  have lastd: "is_digit (last fp)"
    using assms(3,4) by (simp add: list_all_iff)
  have "hd (rev ?s) = last fp"
    using assms(3) by (simp add: hd_rev)
  then have "dropWhile is_space (rev ?s) = rev ?s"
    using lastd by (intro dropWhile_keep) (simp_all add: digit_facts)
  moreover have "dropWhile is_space ?s = ?s"
    using d by (simp add: ip digit_facts)
  ultimately have strip: "strip ?s = ?s"
    by (simp add: strip_def)
  have sign: "sign_split ?s = (False, ?s)"
    using d by (simp add: ip digit_facts)
  have words: "map lower ?s \<noteq> ''inf''" "map lower ?s \<noteq> ''infinity''" "map lower ?s \<noteq> ''nan''"
    using d by (auto simp: ip digit_facts)
  have tw: "takeWhile is_digit ?s = ip" "dropWhile is_digit ?s = CHR ''.'' # fp"
    "takeWhile is_digit fp = fp" "dropWhile is_digit fp = []"
    using assms(2,4) by (simp_all add: list_all_iff takeWhile_append2 dropWhile_append2 is_digit_def)
  have "parse_decimal ?s = Some (decimal_value ip fp)"
    using assms(1) by (simp add: parse_decimal_def tw parse_exponent_def decimal_value_def)
  with strip sign words show ?thesis
    by (simp add: py_float_def)
qed

text \<open>Text in front of the first match is passed over.\<close>

lemma extractDate_prefix:
  "\<forall>i<length pre. match_here p (drop i (pre @ s)) = None \<Longrightarrow>
   extractDate p (pre @ s) = extractDate p s"
proof (induction pre)
  case Nil
  then show ?case by simp
next
  case (Cons c pre)
  have "match_here p (c # pre @ s) = None"
    using Cons.prems [rule_format, of 0] by simp
  moreover have "\<forall>i<length pre. match_here p (drop i (pre @ s)) = None"
  proof (intro allI impI)
    fix i assume "i < length pre"
    then show "match_here p (drop i (pre @ s)) = None"
      using Cons.prems [rule_format, of "Suc i"] by simp
  qed
  ultimately show ?case
    using Cons.IH by (simp add: extractDate_skip)
qed

text \<open>
  For a pattern made of a key without an equals sign and \<^verbatim>\<open>\s+=\s\d+\.\d+\<close>: when
  the first match in the text is the key, whitespace, the equals sign, one whitespace
  and digits around a point, with no digit behind them, \<^verbatim>\<open>extractDate\<close> returns
  the decimal value of these digits.
\<close>

theorem extractDate_number:
  assumes key: "CHR ''='' \<notin> set key"
    and first: "\<forall>i<length pre. match_here (lits key @ number_tail) (drop i (pre @ line @ rest)) = None"
    and line: "line = key @ ws @ CHR ''='' # sp # ip @ CHR ''.'' # fp"
    and ws: "ws \<noteq> []" "list_all is_space ws" "is_space sp"
    and ip: "ip \<noteq> []" "list_all is_digit ip"
    and fp: "fp \<noteq> []" "list_all is_digit fp"
    and rest: "rest = [] \<or> \<not> is_digit (hd rest)"
  shows "extractDate (lits key @ number_tail) (pre @ line @ rest)
         = Inr (round64 (decimal_value ip fp))"
proof -
  let ?p = "lits key @ number_tail"
  have tail: "match_here number_tail (ws @ CHR ''='' # sp # ip @ CHR ''.'' # fp @ rest)
         = Some (length ws + 2 + length ip + 1 + length fp)"
    using ws ip fp rest by (rule match_here_number_tail)
  have len: "length line = length key + (length ws + 2 + length ip + 1 + length fp)"
    by (simp add: line)
  have "match_here ?p (key @ ws @ CHR ''='' # sp # ip @ CHR ''.'' # fp @ rest)
        = Some (length key + (length ws + 2 + length ip + 1 + length fp))"
    unfolding match_here_lits tail by simp
  then have hit: "match_here ?p (line @ rest) = Some (length line)"
    by (simp add: line)
  have "extractDate ?p (pre @ line @ rest) = extractDate ?p (line @ rest)"
    using first by (rule extractDate_prefix)
  also have "\<dots> = (case rev (re_split eq_space (take (length line) (line @ rest))) of
                       [] \<Rightarrow> Inl IndexError | q # qs \<Rightarrow> py_float q)"
    using hit by (rule extractDate_hit) (simp add: len)
  also have "take (length line) (line @ rest) = line"
    by simp
  also have "re_split eq_space line = [key @ ws, ip @ CHR ''.'' # fp]"
    unfolding line using key ws(2,3) ip(2) fp(2) by (rule re_split_line)
  finally show ?thesis
    using ip fp by (simp add: py_float_decimal)
qed

text \<open>The sample line of the specification, behind two other characters.\<close>

theorem extractDate_number_witness:
  "extractDate pat_fk (''# '' @ ''f(k)   = 0.873'' @ [CHR 0x0A]) = Inr (round64 0.873)"
proof -
  have first: "\<forall>i<length ''# ''. match_here (lits ''f(k)'' @ number_tail)
                 (drop i (''# '' @ ''f(k)   = 0.873'' @ [CHR 0x0A])) = None"
    by (auto simp: less_Suc_eq lits_def number_tail_def)
  have "extractDate (lits ''f(k)'' @ number_tail) (''# '' @ ''f(k)   = 0.873'' @ [CHR 0x0A])
          = Inr (round64 (decimal_value ''0'' ''873''))"
    by (rule extractDate_number [where ws = "''   ''" and sp = "CHR '' ''", OF _ first])
       (simp_all add: is_space_def is_digit_def)
  then show ?thesis
    by (simp add: pat_fk_def decimal_value_def nat_of_digits_def digit_val_def)
qed

text \<open>The sample line of the specification gives its number.\<close>

lemma extractDate_sample_line: "extractDate pat_fk ''f(k)   = 0.873'' = Inr (round64 0.873)"
  by (simp add: extract_eval pat_fk_def py_float_examples)

text \<open>
  C8. The extraction returns the number behind the equals sign. Not so for the tenth
  pattern: its bracket matches a single character, so of \<open>0.95\<close> only the \<open>0\<close> is
  matched and returned.
\<close>

theorem extractDate_debye_waller_first_character:
  "extractDate pat_debye_waller ''Debye-Waller = 0.95'' = Inr (Fin 0)"
  by (simp add: extract_eval pat_debye_waller_def py_float_examples)

text \<open>The same bracket matches a sign alone, which is no number.\<close>

lemma extractDate_debye_waller_sign:
  "extractDate pat_debye_waller ''Debye-Waller = +'' = Inl ValueError"
  by (simp add: extract_eval pat_debye_waller_def py_float_examples)

section \<open>Validation on assignment\<close>

text \<open>
  C6. The spectrum type is restricted to \<open>SASE\<close>, \<open>tophat\<close> and \<open>twocolour\<close>. Not
  so: any string is stored.
\<close>

theorem spectrum_type_any_string_counterexample:
  "set_photon_energy_spectrum_type (PStr ''gaussian'') unset_parameters
     = Inr (unset_parameters\<lparr>photon_energy_spectrum_type := PStr ''gaussian''\<rparr>)
   \<and> ''gaussian'' \<notin> {''SASE'', ''tophat'', ''twocolour''}"
  by (simp add: set_photon_energy_spectrum_type_def checkAndSetInstance_def)

text \<open>
  C6, amended. The assignment checks the type only: \<^verbatim>\<open>None\<close> stores the default
  \<open>SASE\<close>, a string is stored as it is, and every other value raises at once.
\<close>

theorem spectrum_type_checks_str_only:
  "set_photon_energy_spectrum_type val self =
     (case val of
        PNone \<Rightarrow> Inr (self\<lparr>photon_energy_spectrum_type := PStr ''SASE''\<rparr>)
      | PStr s \<Rightarrow> Inr (self\<lparr>photon_energy_spectrum_type := PStr s\<rparr>)
      | PFloat x \<Rightarrow> Inl TypeError
      | PInt i \<Rightarrow> Inl TypeError
      | PBool b \<Rightarrow> Inl TypeError)"
  by (cases val) (simp_all add: set_photon_energy_spectrum_type_def checkAndSetInstance_def)

text \<open>
  C7. The divergence is checked to lie between 0 and \<open>2 * pi\<close>. Not so: a negative
  float is stored.
\<close>

theorem divergence_out_of_range_counterexample:
  "set_divergence (PFloat (Fin (- 1))) unset_parameters
     = Inr (unset_parameters\<lparr>divergence := PFloat (Fin (- 1))\<rparr>)
   \<and> \<not> (0 \<le> (- 1 :: real) \<and> (- 1 :: real) \<le> 2 * pi)"
  by (simp add: set_divergence_def checkAndSetInstance_def)

text \<open>
  C7, amended. The assignment checks the type only: \<^verbatim>\<open>None\<close> stores the default
  \<open>0.0\<close>, a float is stored as it is whatever its value, and every other value raises
  at once.
\<close>

theorem divergence_checks_float_only:
  "set_divergence val self =
     (case val of
        PNone \<Rightarrow> Inr (self\<lparr>divergence := PFloat (Fin 0)\<rparr>)
      | PFloat x \<Rightarrow> Inr (self\<lparr>divergence := PFloat x\<rparr>)
      | PInt i \<Rightarrow> Inl TypeError
      | PStr s \<Rightarrow> Inl TypeError
      | PBool b \<Rightarrow> Inl TypeError)"
  by (cases val) (simp_all add: set_divergence_def checkAndSetInstance_def)

section \<open>Running the tool\<close>

text \<open>The outcomes of \<^verbatim>\<open>backengine\<close>, by what the serialisation and the tool do.\<close>

lemma backengine_serialize_raises:
  "serialize env (parameters self) (files os) = Inl x \<Longrightarrow> backengine env self os = (Inl x, self, os)"
  by (simp add: backengine_def)

lemma backengine_cannot_start:
  "serialize env (parameters self) (files os) = Inr (p, fs) \<Longrightarrow>
   program env [''xrs''] (tmp_dir p) fs = Inl x \<Longrightarrow>
   backengine env self os =
     (Inl x, self\<lparr>parameters := p\<rparr>,
      os\<lparr>files := fs, spawned := spawned os @ [([''xrs''], tmp_dir p)]\<rparr>)"
  by (simp add: backengine_def)

lemma backengine_stderr:
  "serialize env (parameters self) (files os) = Inr (p, fs) \<Longrightarrow>
   program env [''xrs''] (tmp_dir p) fs = Inr (out, err, fs') \<Longrightarrow> err \<noteq> '''' \<Longrightarrow>
   backengine env self os =
     (Inl RuntimeError, self\<lparr>parameters := p\<rparr>,
      os\<lparr>files := fs', spawned := spawned os @ [([''xrs''], tmp_dir p)]\<rparr>)"
  by (simp add: backengine_def)

lemma backengine_no_output:
  "serialize env (parameters self) (files os) = Inr (p, fs) \<Longrightarrow>
   program env [''xrs''] (tmp_dir p) fs = Inr (out, '''', fs') \<Longrightarrow>
   \<not> isfile fs' (path_join (tmp_dir p) ''xrts_out.txt'') \<Longrightarrow>
   backengine env self os =
     (Inl IOError, self\<lparr>parameters := p\<rparr>,
      os\<lparr>files := fs', spawned := spawned os @ [([''xrs''], tmp_dir p)]\<rparr>)"
  by (simp add: backengine_def)

lemma backengine_output:
  "serialize env (parameters self) (files os) = Inr (p, fs) \<Longrightarrow>
   program env [''xrs''] (tmp_dir p) fs = Inr (out, '''', fs') \<Longrightarrow>
   isfile fs' (path_join (tmp_dir p) ''xrts_out.txt'') \<Longrightarrow>
   spawned (snd (snd (backengine env self os))) = spawned os @ [([''xrs''], tmp_dir p)]"
  by (simp add: backengine_def Let_def split: sum.splits)
text \<open>
  C3. \<^verbatim>\<open>backengine\<close> starts the tool as \<open>xrts\<close>. Not so: the one process it
  starts is \<open>xrs\<close>.
\<close>

theorem backengine_command_counterexample:
  "spawned (snd (snd (backengine env_output example_calculator example_os)))
     = [([''xrs''], ''/tmp/xrts'')]
   \<and> [''xrs''] \<noteq> [''xrts'']"
  by (simp add: backengine_def env_output_def example_calculator_def example_os_def
        path_join_def isfile_def)
text \<open>
  C3, amended. \<^verbatim>\<open>backengine\<close> starts one process, the command \<open>xrs\<close> with no
  arguments, in the temporary directory of the parameters as the serialisation left
  them; it starts none when the serialisation raises.
\<close>

theorem backengine_spawns_xrs_once:
  "spawned (snd (snd (backengine env self os))) =
     (case serialize env (parameters self) (files os) of
        Inl x \<Rightarrow> spawned os
      | Inr (p, fs) \<Rightarrow> spawned os @ [([''xrs''], tmp_dir p)])"
proof (cases "serialize env (parameters self) (files os)")
  case (Inl x)
  then show ?thesis by (simp add: backengine_serialize_raises)
next
  case (Inr pf)
  obtain p fs where pf: "pf = (p, fs)" by (cases pf)
  show ?thesis
  proof (cases "program env [''xrs''] (tmp_dir p) fs")
    case (Inl x)
    with Inr pf show ?thesis by (simp add: backengine_cannot_start)
  next
    case r: (Inr oef)
    obtain out err fs' where oef: "oef = (out, err, fs')" by (cases oef)
    show ?thesis
    proof (cases "err = ''''")
      case False
      with Inr pf r oef show ?thesis by (simp add: backengine_stderr)
    next
      case True
      with Inr pf r oef show ?thesis
        by (cases "isfile fs' (path_join (tmp_dir p) ''xrts_out.txt'')")
           (simp_all add: backengine_no_output backengine_output)
    qed
  qed
qed
text \<open>
  C10. When the tool writes to its standard error, \<^verbatim>\<open>backengine\<close> raises before
  the run log and the run data are assigned: both are as they were.
\<close>

theorem backengine_stderr_keeps_run_state:
  assumes "serialize env (parameters self) (files os) = Inr (p, fs)"
    and "program env [''xrs''] (tmp_dir p) fs = Inr (out, err, fs')"
    and "err \<noteq> ''''"
  shows "fst (backengine env self os) = Inl RuntimeError
         \<and> run_log (fst (snd (backengine env self os))) = run_log self
         \<and> run_data (fst (snd (backengine env self os))) = run_data self"
  using assms by (simp add: backengine_stderr)
text \<open>A calculator with a log and data from an earlier run keeps both.\<close>

theorem backengine_stderr_keeps_run_state_witness:
  "fst (backengine env_stderr example_calculator example_os) = Inl RuntimeError
   \<and> run_log (fst (snd (backengine env_stderr example_calculator example_os))) = Some ''old log''
   \<and> run_data (fst (snd (backengine env_stderr example_calculator example_os))) = Some [[0, 1]]"
proof -
  have "serialize env_stderr (parameters example_calculator) (files example_os)
          = Inr (\<lparr>tmp_dir = ''/tmp/xrts''\<rparr>, [''/tmp/xrts/input.dat'' \<mapsto> ''deck''])"
    by (simp add: env_stderr_def example_calculator_def example_os_def)
  moreover have "program env_stderr [''xrs''] (tmp_dir \<lparr>tmp_dir = ''/tmp/xrts''\<rparr>)
          [''/tmp/xrts/input.dat'' \<mapsto> ''deck'']
          = Inr (''f(k) = 0.873'', ''input error'', [''/tmp/xrts/input.dat'' \<mapsto> ''deck''])"
    by (simp add: env_stderr_def)
  moreover have "''input error'' \<noteq> ''''" by simp
  ultimately have "fst (backengine env_stderr example_calculator example_os) = Inl RuntimeError
         \<and> run_log (fst (snd (backengine env_stderr example_calculator example_os)))
             = run_log example_calculator
         \<and> run_data (fst (snd (backengine env_stderr example_calculator example_os)))
             = run_data example_calculator"
    by (rule backengine_stderr_keeps_run_state)
  then show ?thesis by (simp add: example_calculator_def)
qed
text \<open>
  C4. Each of these raises at once, with no retry: a missing propagation file raises
  \<^verbatim>\<open>IOError\<close> in \<^verbatim>\<open>propToBeamParameters\<close>; parameters that are no instance of
  \<^verbatim>\<open>AbstractCalculatorParameters\<close> raise \<^verbatim>\<open>RuntimeError\<close> in the constructor of
  the calculator; output on the standard error of the tool makes \<^verbatim>\<open>backengine\<close>
  raise, and so does a missing \<^verbatim>\<open>xrts_out.txt\<close>. In both cases of
  \<^verbatim>\<open>backengine\<close> the tool has been started once.
\<close>

theorem errors_abort_immediately:
  "(\<not> isfile fs path \<longrightarrow> propToBeamParameters ar cs fs loader path = Raises IOError)
   \<and> PlasmaXRTSCalculator_init base_init (Other v) ip op = Inl RuntimeError
   \<and> (serialize env (parameters self) (files os) = Inr (p, fsa)
        \<and> program env [''xrs''] (tmp_dir p) fsa = Inr (out, err, fsb) \<and> err \<noteq> ''''
      \<longrightarrow> fst (backengine env self os) = Inl RuntimeError
          \<and> spawned (snd (snd (backengine env self os))) = spawned os @ [([''xrs''], tmp_dir p)])
   \<and> (serialize env (parameters self) (files os) = Inr (p, fsa)
        \<and> program env [''xrs''] (tmp_dir p) fsa = Inr (out, '''', fsb)
        \<and> \<not> isfile fsb (path_join (tmp_dir p) ''xrts_out.txt'')
      \<longrightarrow> fst (backengine env self os) = Inl IOError
          \<and> spawned (snd (snd (backengine env self os))) = spawned os @ [([''xrs''], tmp_dir p)])"
  by (simp add: propToBeamParameters_def PlasmaXRTSCalculator_init_def backengine_stderr
        backengine_no_output)
text \<open>The four errors, each on an input that meets its condition.\<close>

theorem errors_abort_immediately_witness:
  "propToBeamParameters exact_arith example_constants Map.empty example_load ''prop_out.h5''
     = Raises IOError
   \<and> PlasmaXRTSCalculator_init example_base_init (Other PNone) PNone PNone = Inl RuntimeError
   \<and> fst (backengine env_stderr example_calculator example_os) = Inl RuntimeError
   \<and> spawned (snd (snd (backengine env_stderr example_calculator example_os)))
       = [([''xrs''], ''/tmp/xrts'')]
   \<and> fst (backengine env_no_output example_calculator example_os) = Inl IOError
   \<and> spawned (snd (snd (backengine env_no_output example_calculator example_os)))
       = [([''xrs''], ''/tmp/xrts'')]"
proof -
  note stderr = errors_abort_immediately [where ar = exact_arith and fs = Map.empty and path = "''prop_out.h5''"
      and cs = example_constants and loader = example_load and base_init = example_base_init
      and v = PNone and ip = PNone and op = PNone
      and env = env_stderr and self = example_calculator and os = example_os
      and p = "\<lparr>tmp_dir = ''/tmp/xrts''\<rparr>" and fsa = "[''/tmp/xrts/input.dat'' \<mapsto> ''deck'']"
      and out = "''f(k) = 0.873''" and err = "''input error''"
      and fsb = "[''/tmp/xrts/input.dat'' \<mapsto> ''deck'']"]
  note no_output = errors_abort_immediately [where ar = exact_arith and fs = Map.empty and path = "''prop_out.h5''"
      and cs = example_constants and loader = example_load and base_init = example_base_init
      and v = PNone and ip = PNone and op = PNone
      and env = env_no_output and self = example_calculator and os = example_os
      and p = "\<lparr>tmp_dir = ''/tmp/xrts''\<rparr>" and fsa = "[''/tmp/xrts/input.dat'' \<mapsto> ''deck'']"
      and out = "''''" and err = "''input error''"
      and fsb = "[''/tmp/xrts/input.dat'' \<mapsto> ''deck'']"]
  have "\<not> isfile Map.empty ''prop_out.h5''"
    by (simp add: isfile_def)
  moreover have "\<not> isfile [''/tmp/xrts/input.dat'' \<mapsto> ''deck'']
                    (path_join ''/tmp/xrts'' ''xrts_out.txt'')"
    by (simp add: isfile_def path_join_def)
  ultimately show ?thesis
    using stderr no_output
    by (simp add: env_stderr_def env_no_output_def example_calculator_def example_os_def)
qed

section \<open>The beam parameters of a propagated pulse\<close>

lemma obind_simps [simp]:
  "obind (Raises x) f = Raises x" "obind (Returns v) f = f v"
  by (simp_all add: obind_def)

lemma lift_simps [simp]: "lift (Inl x) = Raises x" "lift (Inr v) = Returns v"
  by (simp_all add: lift_def)

lemma DetectorGeometryParameters_init_floats:
  "DetectorGeometryParameters_init (PFloat a) (PFloat b) (PFloat c) (PFloat d) (PFloat g) (PStr s)
   = Inr \<lparr>photon_energy = PFloat a, photon_energy_relative_bandwidth = PFloat d,
          beam_diameter_fwhm = PFloat b, pulse_energy = PFloat c, divergence = PFloat g,
          photon_energy_spectrum_type = PStr s\<rparr>"
  by (simp add: DetectorGeometryParameters_init_def set_photon_energy_def
        set_photon_energy_relative_bandwidth_def set_beam_diameter_fwhm_def set_pulse_energy_def
        set_divergence_def set_photon_energy_spectrum_type_def checkAndSetInstance_def
        unset_parameters_def and_then_def)

text \<open>
  The arrays of the code against the indexed sums of the specification: the slice
  points without the last one, the differences of neighbouring points, and the products
  that are summed.
\<close>

lemma butlast_linspace:
  "butlast (linspace ar a b n) = map (linspace_point ar a b n) [0..<n - 1]"
  by (rule nth_equalityI) (simp_all add: nth_butlast linspace_def)

lemma tl_linspace:
  "tl (linspace ar a b n) = map (\<lambda>i. linspace_point ar a b n (Suc i)) [0..<n - 1]"
  by (rule nth_equalityI) (simp_all add: nth_tl linspace_def)

lemma butlast_map_nth:
  "butlast (map g xs) = map (\<lambda>i. g (xs ! i)) [0..<length xs - 1]"
  by (rule nth_equalityI) (simp_all add: nth_butlast)

lemma map2_same: "map2 f (map g js) (map h js) = map (\<lambda>i. f (g i) (h i)) js"
  by (induction js) simp_all

lemma np_scale_scale:
  "np_scale ar (np_scale ar xs dx) dy = map (\<lambda>x. fmul ar (fmul ar x dx) dy) xs"
  by (simp add: np_scale_def)

lemma code_sum0:
  "np_mul ar (butlast (map g xs))
       (np_sub ar (tl (linspace ar a b (length xs))) (butlast (linspace ar a b (length xs))))
   = map (\<lambda>i. fmul ar (g (xs ! i))
            (fsub ar (linspace_point ar a b (length xs) (Suc i)) (linspace_point ar a b (length xs) i)))
       [0..<length xs - 1]"
  unfolding np_mul_def np_sub_def butlast_linspace tl_linspace butlast_map_nth
  by (simp only: map2_same)

lemma code_sum1:
  "np_mul ar (np_mul ar (butlast (map g xs)) (butlast (linspace ar a b (length xs))))
       (np_sub ar (tl (linspace ar a b (length xs))) (butlast (linspace ar a b (length xs))))
   = map (\<lambda>i. fmul ar (fmul ar (g (xs ! i)) (linspace_point ar a b (length xs) i))
            (fsub ar (linspace_point ar a b (length xs) (Suc i)) (linspace_point ar a b (length xs) i)))
       [0..<length xs - 1]"
  unfolding np_mul_def np_sub_def butlast_linspace tl_linspace butlast_map_nth
  by (simp only: map2_same)

lemma code_sum2:
  "np_mul ar (np_mul ar (butlast (map g xs)) (np_pow ar (butlast (linspace ar a b (length xs))) k))
       (np_sub ar (tl (linspace ar a b (length xs))) (butlast (linspace ar a b (length xs))))
   = map (\<lambda>i. fmul ar (fmul ar (g (xs ! i)) (fpow ar (linspace_point ar a b (length xs) i) k))
            (fsub ar (linspace_point ar a b (length xs) (Suc i)) (linspace_point ar a b (length xs) i)))
       [0..<length xs - 1]"
  unfolding np_mul_def np_sub_def np_pow_def butlast_linspace tl_linspace butlast_map_nth
  by (simp only: map2_same map_map comp_def)

lemmas code_sums_f = code_sum0 [where g = "\<lambda>x. x", simplified]
  code_sum1 [where g = "\<lambda>x. x", simplified] code_sum2 [where g = "\<lambda>x. x", simplified]

text \<open>
  \<^verbatim>\<open>propToBeamParameters\<close> on a file that exists and loads, in terms of the
  specification's moments: every way it raises, and the parameters it returns otherwise.
\<close>

lemma propToBeamParameters_eq:
  assumes "isfile fs path" and "loader path = Inr wv"
  shows "propToBeamParameters ar cs fs loader path =
     (if nx wv = 1 \<or> ny wv = 1 then Raises ZeroDivisionError
      else if is_negative (var_t ar wv) then Raises ValueError
      else if is_zero (rms_t ar wv) \<or> e cs = 0 then Raises ZeroDivisionError
      else if is_negative (var_f ar wv) then Raises ValueError
      else Returns
        \<lparr>photon_energy = PFloat (mean_photon_energy ar wv),
         photon_energy_relative_bandwidth = PFloat (spec_bandwidth ar cs wv),
         beam_diameter_fwhm = PFloat (Fin (max (xy_fwhm_x wv) (xy_fwhm_y wv))),
         pulse_energy = PFloat (wf_pulse_energy wv),
         divergence = PFloat (Fin (max (qxqy_fwhm_x wv) (qxqy_fwhm_y wv) / 2)),
         photon_energy_spectrum_type = PStr ''SASE''\<rparr>)"
  using assms
  unfolding propToBeamParameters_def Let_def np_scale_scale length_map
    code_sum0 code_sum1 code_sum2 code_sums_f
  by (simp add: py_div_def np_div_def math_sqrt_def DetectorGeometryParameters_init_floats
        var_t_def var_f_def spec_var_def spec_m0_def spec_m1_def spec_m2_def spec_rms_def
        rms_t_def mean_photon_energy_def spec_bandwidth_def curve_t_def curve_f_def times_t_def
        energies_f_def nSlices_t_def nSlices_f_def pixel_dx_def pixel_dy_def is_zero_def)

text \<open>The moments of the two example wavefronts, and what the function returns on the first.\<close>

lemma exact_arith_simps [simp]:
  "fmul exact_arith (Fin x) (Fin y) = Fin (x * y)"
  "fsub exact_arith (Fin x) (Fin y) = Fin (x - y)"
  "y \<noteq> 0 \<Longrightarrow> fdiv exact_arith (Fin x) (Fin y) = Fin (x / y)"
  "fpow exact_arith (Fin x) k = Fin (x ^ k)"
  "scalar_pow exact_arith (Fin x) k = Fin (x ^ k)"
  "fsqrt exact_arith (Fin 0) = Fin 0"
  "fsqrt exact_arith (Fin (1 / 4)) = Fin (1 / 2)"
  "fsum exact_arith [] = Fin 0"
  "fsum exact_arith [Fin x] = Fin x"
  "fsum exact_arith [Fin x, Fin y] = Fin (x + y)"
  "linspace_point exact_arith (Fin x) (Fin y) n i
     = Fin (if n = 1 then x else x + real i * ((y - x) / real (n - 1)))"
  by (simp_all add: exact_arith_def exact2_def exact_div_def exact_pow_def exact_sqrt_def
        exact_roots_def exact_point_def)

lemma upt_two: "[0..<2] = [0, Suc 0]"
  by (simp add: upt_rec numeral_2_eq_2)

lemma example_fields:
  "intensity_t example_wavefront = [Fin 1, Fin 1, Fin 0]"
  "sliceMin_t example_wavefront = Fin 0" "sliceMax_t example_wavefront = Fin 2"
  "intensity_f example_wavefront = [Fin 1, Fin 1, Fin 0]"
  "sliceMin_f example_wavefront = Fin 1" "sliceMax_f example_wavefront = Fin 3"
  "nx example_wavefront = 3" "ny example_wavefront = 3"
  "xy_fwhm_x example_wavefront = 2" "xy_fwhm_y example_wavefront = 3"
  "qxqy_fwhm_x example_wavefront = 4" "qxqy_fwhm_y example_wavefront = 2"
  "wf_pulse_energy example_wavefront = Fin 0.001"
  by (simp_all add: example_wavefront_def)

lemma delta_fields:
  "intensity_t delta_wavefront = [Fin 0, Fin 1, Fin 0]" "sliceMin_t delta_wavefront = Fin 0"
  "sliceMax_t delta_wavefront = Fin 2" "nx delta_wavefront = 3" "ny delta_wavefront = 3"
  by (simp_all add: delta_wavefront_def example_wavefront_def)

lemma example_pixel:
  "pixel_dx exact_arith example_wavefront = Fin 1" "pixel_dy exact_arith example_wavefront = Fin 1"
  "pixel_dx exact_arith delta_wavefront = Fin 1" "pixel_dy exact_arith delta_wavefront = Fin 1"
  by (simp_all add: pixel_dx_def pixel_dy_def example_wavefront_def delta_wavefront_def)

lemma example_moments_t:
  "spec_m0 exact_arith (curve_t exact_arith example_wavefront) (times_t exact_arith example_wavefront)
     (nSlices_t example_wavefront) = Fin 2"
  "spec_m1 exact_arith (curve_t exact_arith example_wavefront) (times_t exact_arith example_wavefront)
     (nSlices_t example_wavefront) = Fin (1 / 2)"
  "spec_m2 exact_arith (curve_t exact_arith example_wavefront) (times_t exact_arith example_wavefront)
     (nSlices_t example_wavefront) = Fin (1 / 2)"
  by (simp_all add: spec_m0_def spec_m1_def spec_m2_def curve_t_def times_t_def nSlices_t_def
        example_pixel example_fields upt_two)

lemma example_moments_f:
  "spec_m0 exact_arith (curve_f example_wavefront) (energies_f exact_arith example_wavefront)
     (nSlices_f example_wavefront) = Fin 2"
  "spec_m1 exact_arith (curve_f example_wavefront) (energies_f exact_arith example_wavefront)
     (nSlices_f example_wavefront) = Fin (3 / 2)"
  "spec_m2 exact_arith (curve_f example_wavefront) (energies_f exact_arith example_wavefront)
     (nSlices_f example_wavefront) = Fin (5 / 2)"
  by (simp_all add: spec_m0_def spec_m1_def spec_m2_def curve_f_def energies_f_def nSlices_f_def
        example_fields upt_two)

lemma example_var:
  "var_t exact_arith example_wavefront = Fin (1 / 4)"
  "var_f exact_arith example_wavefront = Fin (1 / 4)"
  by (simp_all add: var_t_def var_f_def spec_var_def example_moments_t example_moments_f
        power2_eq_square)

lemma example_rms_t:
  "spec_rms exact_arith (curve_t exact_arith example_wavefront) (times_t exact_arith example_wavefront)
     (nSlices_t example_wavefront) = Fin (1 / 2)"
proof -
  have "spec_rms exact_arith (curve_t exact_arith example_wavefront)
          (times_t exact_arith example_wavefront) (nSlices_t example_wavefront)
        = fsqrt exact_arith (var_t exact_arith example_wavefront)"
    by (simp add: spec_rms_def var_t_def spec_var_def)
  then show ?thesis
    by (simp add: example_var)
qed

lemma delta_moments_t:
  "spec_m0 exact_arith (curve_t exact_arith delta_wavefront) (times_t exact_arith delta_wavefront)
     (nSlices_t delta_wavefront) = Fin 1"
  "spec_m1 exact_arith (curve_t exact_arith delta_wavefront) (times_t exact_arith delta_wavefront)
     (nSlices_t delta_wavefront) = Fin 1"
  "spec_m2 exact_arith (curve_t exact_arith delta_wavefront) (times_t exact_arith delta_wavefront)
     (nSlices_t delta_wavefront) = Fin 1"
  by (simp_all add: spec_m0_def spec_m1_def spec_m2_def curve_t_def times_t_def nSlices_t_def
        example_pixel delta_fields upt_two)

lemma delta_var: "var_t exact_arith delta_wavefront = Fin 0"
  by (simp add: var_t_def spec_var_def delta_moments_t)

lemma delta_rms: "rms_t exact_arith delta_wavefront = Fin 0"
proof -
  have "rms_t exact_arith delta_wavefront = fsqrt exact_arith (var_t exact_arith delta_wavefront)"
    by (simp add: rms_t_def spec_rms_def var_t_def spec_var_def)
  then show ?thesis
    by (simp add: delta_var)
qed

lemma example_files_isfile: "isfile example_files ''prop_out.h5''"
  by (simp add: isfile_def example_files_def)

lemma propToBeamParameters_example:
  "propToBeamParameters exact_arith example_constants example_files example_load ''prop_out.h5''
     = Returns example_beam_parameters"
proof -
  show ?thesis
    by (simp add: propToBeamParameters_eq [where loader = example_load
            and wv = example_wavefront, OF example_files_isfile]
          example_load_def example_var example_moments_f example_fields is_negative_def is_zero_def
          mean_photon_energy_def spec_bandwidth_def rms_t_def example_rms_t
          example_constants_def example_beam_parameters_def)
qed

text \<open>
  C1. From a propagation file that loads, \<^verbatim>\<open>propToBeamParameters\<close> takes the
  mean photon energy to be the first moment \<open>m1\<close> of the spectrum, and the relative
  bandwidth to be \<open>(hbar / rms) / e\<close> over that energy, where \<open>rms = sqrt (m2 - m1^2)\<close>
  comes from the moments of the intensity over time, every operation being that of the
  floating-point arithmetic. It returns these exactly when the mesh has more than one
  point each way, neither computed variance is negative, and the computed temporal
  width is not a zero; otherwise it raises.
\<close>

theorem propToBeamParameters_bandwidth:
  assumes "isfile fs path" and "loader path = Inr wv"
  shows "(\<forall>bp. propToBeamParameters ar cs fs loader path = Returns bp \<longrightarrow>
            photon_energy bp = PFloat (spec_m1 ar (curve_f wv) (energies_f ar wv) (nSlices_f wv))
          \<and> photon_energy_relative_bandwidth bp =
              PFloat (fdiv ar
                (fdiv ar
                  (fdiv ar (Fin (hbar cs))
                     (spec_rms ar (curve_t ar wv) (times_t ar wv) (nSlices_t wv)))
                  (Fin (e cs)))
                (spec_m1 ar (curve_f wv) (energies_f ar wv) (nSlices_f wv))))
       \<and> ((\<exists>bp. propToBeamParameters ar cs fs loader path = Returns bp) \<longleftrightarrow>
              nx wv \<noteq> 1 \<and> ny wv \<noteq> 1 \<and> e cs \<noteq> 0
            \<and> \<not> is_negative (spec_var ar (curve_t ar wv) (times_t ar wv) (nSlices_t wv))
            \<and> \<not> is_zero (spec_rms ar (curve_t ar wv) (times_t ar wv) (nSlices_t wv))
            \<and> \<not> is_negative (spec_var ar (curve_f wv) (energies_f ar wv) (nSlices_f wv)))"
proof (intro conjI allI impI)
  fix bp
  assume "propToBeamParameters ar cs fs loader path = Returns bp"
  then have bp: "bp = \<lparr>photon_energy = PFloat (mean_photon_energy ar wv),
         photon_energy_relative_bandwidth = PFloat (spec_bandwidth ar cs wv),
         beam_diameter_fwhm = PFloat (Fin (max (xy_fwhm_x wv) (xy_fwhm_y wv))),
         pulse_energy = PFloat (wf_pulse_energy wv),
         divergence = PFloat (Fin (max (qxqy_fwhm_x wv) (qxqy_fwhm_y wv) / 2)),
         photon_energy_spectrum_type = PStr ''SASE''\<rparr>"
    unfolding propToBeamParameters_eq [where loader = loader and wv = wv, OF assms]
    by (simp split: if_splits)
  show "photon_energy bp = PFloat (spec_m1 ar (curve_f wv) (energies_f ar wv) (nSlices_f wv))"
    by (simp add: bp mean_photon_energy_def)
  show "photon_energy_relative_bandwidth bp =
          PFloat (fdiv ar
            (fdiv ar
              (fdiv ar (Fin (hbar cs))
                 (spec_rms ar (curve_t ar wv) (times_t ar wv) (nSlices_t wv)))
              (Fin (e cs)))
            (spec_m1 ar (curve_f wv) (energies_f ar wv) (nSlices_f wv)))"
    by (simp add: bp spec_bandwidth_def rms_t_def mean_photon_energy_def)
next
  show "(\<exists>bp. propToBeamParameters ar cs fs loader path = Returns bp) \<longleftrightarrow>
              nx wv \<noteq> 1 \<and> ny wv \<noteq> 1 \<and> e cs \<noteq> 0
            \<and> \<not> is_negative (spec_var ar (curve_t ar wv) (times_t ar wv) (nSlices_t wv))
            \<and> \<not> is_zero (spec_rms ar (curve_t ar wv) (times_t ar wv) (nSlices_t wv))
            \<and> \<not> is_negative (spec_var ar (curve_f wv) (energies_f ar wv) (nSlices_f wv))"
    unfolding propToBeamParameters_eq [where loader = loader and wv = wv, OF assms]
    by (auto simp: var_t_def var_f_def rms_t_def)
qed

text \<open>On the example wavefront: \<open>rms = 1 / 2\<close> and a mean photon energy of \<open>3 / 2\<close>.\<close>

theorem propToBeamParameters_bandwidth_witness:
  "\<exists>bp. propToBeamParameters exact_arith example_constants example_files example_load
           ''prop_out.h5'' = Returns bp
        \<and> photon_energy bp = PFloat (Fin (3 / 2))
        \<and> photon_energy_relative_bandwidth bp =
            PFloat (Fin (((1.0545718 / 10 ^ 34) / (1 / 2)) / (1.6021766208 / 10 ^ 19) / (3 / 2)))"
proof -
  note inst = propToBeamParameters_bandwidth [where loader = example_load
      and wv = example_wavefront and cs = example_constants and ar = exact_arith,
      OF example_files_isfile]
  have load: "example_load ''prop_out.h5'' = Inr example_wavefront"
    by (simp add: example_load_def)
  have "e example_constants \<noteq> 0"
    by (simp add: example_constants_def)
  then obtain bp where
    bp: "propToBeamParameters exact_arith example_constants example_files example_load
           ''prop_out.h5'' = Returns bp"
    using inst [OF load] example_var
    by (auto simp: example_fields example_rms_t var_t_def var_f_def is_negative_def is_zero_def)
  with inst [OF load] have "photon_energy bp = PFloat (Fin (3 / 2))"
    and "photon_energy_relative_bandwidth bp =
            PFloat (Fin (((1.0545718 / 10 ^ 34) / (1 / 2)) / (1.6021766208 / 10 ^ 19) / (3 / 2)))"
    by (simp_all add: example_moments_f example_rms_t example_constants_def)
  with bp show ?thesis by blast
qed

text \<open>
  C2. The beam diameter and the divergence are both the larger of the two widths. Not
  so for the divergence: with reciprocal-space widths 4 and 2 it is 2.
\<close>

theorem divergence_is_half_counterexample:
  "propToBeamParameters exact_arith example_constants example_files example_load ''prop_out.h5''
     = Returns example_beam_parameters
   \<and> qxqy_fwhm_x example_wavefront = 4 \<and> qxqy_fwhm_y example_wavefront = 2
   \<and> divergence example_beam_parameters = PFloat (Fin 2)
   \<and> divergence example_beam_parameters \<noteq> PFloat (Fin (max 4 2))"
  by (simp add: propToBeamParameters_example example_wavefront_def example_beam_parameters_def)

text \<open>
  C2, amended. The beam diameter is the larger of the two real-space widths; the
  divergence is half the larger of the two reciprocal-space widths.
\<close>

theorem propToBeamParameters_fwhm:
  assumes "isfile fs path" and "loader path = Inr wv"
    and "propToBeamParameters ar cs fs loader path = Returns bp"
  shows "beam_diameter_fwhm bp = PFloat (Fin (max (xy_fwhm_x wv) (xy_fwhm_y wv)))
         \<and> divergence bp = PFloat (Fin (max (qxqy_fwhm_x wv) (qxqy_fwhm_y wv) / 2))"
  using assms(3) unfolding propToBeamParameters_eq [where loader = loader and wv = wv, OF assms(1,2)]
  by (auto split: if_splits)

text \<open>On the example wavefront: a diameter of 3 and a divergence of 2.\<close>

theorem propToBeamParameters_fwhm_witness:
  "beam_diameter_fwhm example_beam_parameters = PFloat (Fin (max 2 3))
   \<and> divergence example_beam_parameters = PFloat (Fin (max 4 2 / 2))"
proof -
  have load: "example_load ''prop_out.h5'' = Inr example_wavefront"
    by (simp add: example_load_def)
  from propToBeamParameters_fwhm [where loader = example_load and wv = example_wavefront,
      OF example_files_isfile load propToBeamParameters_example]
  show ?thesis by (simp add: example_wavefront_def)
qed

text \<open>
  C5. For a pulse with all its intensity in one time slice the bandwidth is zero. Not
  so: with the intensities 0, 1, 0 on the slice range from 0 to 2 the call raises
  \<^verbatim>\<open>ZeroDivisionError\<close>.
\<close>

theorem delta_pulse_bandwidth_counterexample:
  "intensity_t delta_wavefront = [Fin 0, Fin 1, Fin 0]
   \<and> propToBeamParameters exact_arith example_constants example_files delta_load ''prop_out.h5''
       = Raises ZeroDivisionError"
  by (simp add: propToBeamParameters_eq [where loader = delta_load
          and wv = delta_wavefront, OF example_files_isfile]
        delta_load_def delta_var delta_rms delta_fields is_negative_def is_zero_def)

text \<open>
  C5, amended. Whenever the temporal width \<open>rms\<close> that \<^verbatim>\<open>propToBeamParameters\<close>
  computes is a zero (the computed variance is not negative and its square root is
  zero), the call raises \<^verbatim>\<open>ZeroDivisionError\<close> at \<open>hbar / rms\<close>: it returns no
  bandwidth. The statement is about the computed width, since the rounding of
  \<open>m2 - m1^2\<close> decides whether a pulse in a single slice has the width zero.
\<close>

theorem zero_width_raises:
  assumes "isfile fs path" and "loader path = Inr wv"
    and "\<not> is_negative (spec_var ar (curve_t ar wv) (times_t ar wv) (nSlices_t wv))"
    and "is_zero (spec_rms ar (curve_t ar wv) (times_t ar wv) (nSlices_t wv))"
  shows "propToBeamParameters ar cs fs loader path = Raises ZeroDivisionError"
  unfolding propToBeamParameters_eq [where loader = loader and wv = wv, OF assms(1,2)]
  using assms(3,4) by (simp add: var_t_def rms_t_def)

text \<open>The pulse with the intensities 0, 1, 0 has the computed width zero.\<close>

theorem zero_width_raises_witness:
  "\<not> is_negative (spec_var exact_arith (curve_t exact_arith delta_wavefront)
        (times_t exact_arith delta_wavefront) (nSlices_t delta_wavefront))
   \<and> is_zero (spec_rms exact_arith (curve_t exact_arith delta_wavefront)
        (times_t exact_arith delta_wavefront) (nSlices_t delta_wavefront))
   \<and> propToBeamParameters exact_arith example_constants example_files delta_load ''prop_out.h5''
       = Raises ZeroDivisionError"
proof -
  have load: "delta_load ''prop_out.h5'' = Inr delta_wavefront"
    by (simp add: delta_load_def)
  have var: "\<not> is_negative (spec_var exact_arith (curve_t exact_arith delta_wavefront)
        (times_t exact_arith delta_wavefront) (nSlices_t delta_wavefront))"
    using delta_var by (simp add: var_t_def is_negative_def)
  have rms: "is_zero (spec_rms exact_arith (curve_t exact_arith delta_wavefront)
        (times_t exact_arith delta_wavefront) (nSlices_t delta_wavefront))"
    using delta_rms by (simp add: rms_t_def is_zero_def)
  from zero_width_raises [where loader = delta_load, OF example_files_isfile load var rms]
  show ?thesis
    using var rms by simp
qed

end
